theory Spec2Isabelle
  imports Complex_Main "HOL-Library.Word"
begin

section \<open>Numbers and the GLM value types\<close>

text \<open>
  A model of the stereo frame loop (\<open>GlfwApp\<close>, \<open>RiftApp\<close>, \<open>ExampleApp\<close>) and of the
  particle game (\<open>ColorCubeScene\<close>) of the headset demo. What the program reads from the
  runtime, the window system, the clock and \<open>rand()\<close> is input to the model; what it does
  to them is a sequence of events or a field of the state.

  The program computes with \<open>float\<close>. The embedding uses \<open>real\<close> for it: the
  properties below are about which branch is taken and which value is stored where, not
  about rounding. The one place where a \<open>float\<close> result has no real counterpart (a
  \<open>0/0\<close> in the point-to-line distance) is written out in \<open>rayHit\<close>.
  \<open>int\<close> counters and \<open>clock_t\<close> readings are \<open>int\<close>; the viewport
  arithmetic of the constructor, which mixes \<open>int\<close> and \<open>uint32_t\<close>, is done on
  32-bit words.
\<close>

type_synonym i32 = "32 word"  \<comment> \<open>read with \<open>sint\<close>\<close>
type_synonym u32 = "32 word"  \<comment> \<open>read with \<open>uint\<close>\<close>

datatype vec3 = Vec3 (vec3_x: real) (vec3_y: real) (vec3_z: real)
datatype vec4 = Vec4 (vec4_x: real) (vec4_y: real) (vec4_z: real) (vec4_w: real)
datatype quat = Quat (quat_x: real) (quat_y: real) (quat_z: real) (quat_w: real)

text \<open>\<open>glm::mat4\<close> is column major: \<open>m[i]\<close> is column \<open>i\<close>, \<open>m[3]\<close> the translation.\<close>

datatype mat4 = Mat4 (col0: vec4) (col1: vec4) (col2: vec4) (col3: vec4)

definition vec4_add :: "vec4 \<Rightarrow> vec4 \<Rightarrow> vec4" where
  "vec4_add a b =
     Vec4 (vec4_x a + vec4_x b) (vec4_y a + vec4_y b) (vec4_z a + vec4_z b) (vec4_w a + vec4_w b)"

definition vec4_scale :: "vec4 \<Rightarrow> real \<Rightarrow> vec4" where
  "vec4_scale a k = Vec4 (vec4_x a * k) (vec4_y a * k) (vec4_z a * k) (vec4_w a * k)"

definition vec3_sub :: "vec3 \<Rightarrow> vec3 \<Rightarrow> vec3" where
  "vec3_sub a b = Vec3 (vec3_x a - vec3_x b) (vec3_y a - vec3_y b) (vec3_z a - vec3_z b)"

definition vec3_scale :: "vec3 \<Rightarrow> real \<Rightarrow> vec3" where
  "vec3_scale a k = Vec3 (vec3_x a * k) (vec3_y a * k) (vec3_z a * k)"

definition vec3_of_vec4 :: "vec4 \<Rightarrow> vec3" where
  "vec3_of_vec4 v = Vec3 (vec4_x v) (vec4_y v) (vec4_z v)"

definition glm_dot :: "vec3 \<Rightarrow> vec3 \<Rightarrow> real" where
  "glm_dot a b = vec3_x a * vec3_x b + vec3_y a * vec3_y b + vec3_z a * vec3_z b"

definition glm_cross :: "vec3 \<Rightarrow> vec3 \<Rightarrow> vec3" where
  "glm_cross a b =
     Vec3 (vec3_y a * vec3_z b - vec3_y b * vec3_z a)
          (vec3_z a * vec3_x b - vec3_z b * vec3_x a)
          (vec3_x a * vec3_y b - vec3_x b * vec3_y a)"

definition glm_length :: "vec3 \<Rightarrow> real" where
  "glm_length v = sqrt (glm_dot v v)"

text \<open>
  \<open>glm::normalize\<close>. For the zero vector the \<open>float\<close> result is NaN in every component;
  here it is the zero vector. It is only used for the rotation axis, which reaches the first
  three columns of a particle's transform and nothing any property below reads.
\<close>

definition glm_normalize :: "vec3 \<Rightarrow> vec3" where
  "glm_normalize v = vec3_scale v (1 / sqrt (glm_dot v v))"

definition mat4_identity :: mat4 where
  "mat4_identity = Mat4 (Vec4 1 0 0 0) (Vec4 0 1 0 0) (Vec4 0 0 1 0) (Vec4 0 0 0 1)"

definition mat4_mul_vec4 :: "mat4 \<Rightarrow> vec4 \<Rightarrow> vec4" where
  "mat4_mul_vec4 m v =
     vec4_add (vec4_add (vec4_add (vec4_scale (col0 m) (vec4_x v)) (vec4_scale (col1 m) (vec4_y v)))
                        (vec4_scale (col2 m) (vec4_z v)))
              (vec4_scale (col3 m) (vec4_w v))"

definition mat4_mul :: "mat4 \<Rightarrow> mat4 \<Rightarrow> mat4" where
  "mat4_mul a b =
     Mat4 (mat4_mul_vec4 a (col0 b)) (mat4_mul_vec4 a (col1 b))
          (mat4_mul_vec4 a (col2 b)) (mat4_mul_vec4 a (col3 b))"

text \<open>\<open>glm::translate(m, v)\<close>, \<open>glm::scale(m, v)\<close> and \<open>glm::rotate(m, angle, v)\<close> of
  \<open>glm/gtc/matrix_transform\<close>: each multiplies \<open>m\<close> on the right, so \<open>scale\<close> and
  \<open>rotate\<close> leave the translation column \<open>m[3]\<close> as it is.\<close>

definition glm_translate :: "mat4 \<Rightarrow> vec3 \<Rightarrow> mat4" where
  "glm_translate m v =
     Mat4 (col0 m) (col1 m) (col2 m)
       (vec4_add (vec4_add (vec4_add (vec4_scale (col0 m) (vec3_x v)) (vec4_scale (col1 m) (vec3_y v)))
                           (vec4_scale (col2 m) (vec3_z v)))
                 (col3 m))"

definition glm_scale :: "mat4 \<Rightarrow> vec3 \<Rightarrow> mat4" where
  "glm_scale m v =
     Mat4 (vec4_scale (col0 m) (vec3_x v)) (vec4_scale (col1 m) (vec3_y v))
          (vec4_scale (col2 m) (vec3_z v)) (col3 m)"

definition glm_rotate :: "mat4 \<Rightarrow> real \<Rightarrow> vec3 \<Rightarrow> mat4" where
  "glm_rotate m angle v =
     (let c = cos angle; s = sin angle;
          axis = glm_normalize v;
          temp = vec3_scale axis (1 - c);
          r00 = c + vec3_x temp * vec3_x axis;
          r01 = vec3_x temp * vec3_y axis + s * vec3_z axis;
          r02 = vec3_x temp * vec3_z axis - s * vec3_y axis;
          r10 = vec3_y temp * vec3_x axis - s * vec3_z axis;
          r11 = c + vec3_y temp * vec3_y axis;
          r12 = vec3_y temp * vec3_z axis + s * vec3_x axis;
          r20 = vec3_z temp * vec3_x axis + s * vec3_y axis;
          r21 = vec3_z temp * vec3_y axis - s * vec3_x axis;
          r22 = c + vec3_z temp * vec3_z axis
      in Mat4
          (vec4_add (vec4_add (vec4_scale (col0 m) r00) (vec4_scale (col1 m) r01)) (vec4_scale (col2 m) r02))
          (vec4_add (vec4_add (vec4_scale (col0 m) r10) (vec4_scale (col1 m) r11)) (vec4_scale (col2 m) r12))
          (vec4_add (vec4_add (vec4_scale (col0 m) r20) (vec4_scale (col1 m) r21)) (vec4_scale (col2 m) r22))
          (col3 m))"

text \<open>\<open>glm::mat4_cast\<close> / \<open>glm::toMat4\<close>: the rotation matrix of a quaternion.\<close>

definition glm_mat4_cast :: "quat \<Rightarrow> mat4" where
  "glm_mat4_cast q =
     (let qxx = quat_x q * quat_x q; qyy = quat_y q * quat_y q; qzz = quat_z q * quat_z q;
          qxz = quat_x q * quat_z q; qxy = quat_x q * quat_y q; qyz = quat_y q * quat_z q;
          qwx = quat_w q * quat_x q; qwy = quat_w q * quat_y q; qwz = quat_w q * quat_z q
      in Mat4
          (Vec4 (1 - 2 * (qyy + qzz)) (2 * (qxy + qwz)) (2 * (qxz - qwy)) 0)
          (Vec4 (2 * (qxy - qwz)) (1 - 2 * (qxx + qzz)) (2 * (qyz + qwx)) 0)
          (Vec4 (2 * (qxz + qwy)) (2 * (qyz - qwx)) (1 - 2 * (qxx + qyy)) 0)
          (Vec4 0 0 0 1))"

text \<open>C's integer division truncates towards zero; \<open>div\<close> on \<open>int\<close> rounds down.\<close>

definition c_div :: "int \<Rightarrow> int \<Rightarrow> int" where
  "c_div a b = sgn a * sgn b * (\<bar>a\<bar> div \<bar>b\<bar>)"

section \<open>The Oculus value types\<close>

record ovrPosef =
  Orientation :: quat
  Position :: vec3

datatype ovrSizei = Sizei (size_w: i32) (size_h: i32)
datatype ovrVector2i = Vector2i (pos_x: i32) (pos_y: i32)
datatype uvec2 = UVec2 (uvec2_x: u32) (uvec2_y: u32)

record ovrRecti =
  Pos :: ovrVector2i
  Size :: ovrSizei

text \<open>
  The enumerations of \<open>OVR_CAPI.h\<close> used as array indices: \<open>ovrEye_Left = 0\<close>,
  \<open>ovrEye_Right = 1\<close>, \<open>ovrEye_Count = 2\<close>, \<open>ovrHand_Left = 0\<close>,
  \<open>ovrHand_Right = 1\<close>, and the program's own \<open>LEFT = 0\<close> and \<open>RIGHT = 1\<close>.
  A two-element C array is a function on these indices.
\<close>

definition ovrEye_Left :: nat where "ovrEye_Left = 0"
definition ovrEye_Right :: nat where "ovrEye_Right = 1"
definition ovrEye_Count :: nat where "ovrEye_Count = 2"
definition ovrHand_Left :: nat where "ovrHand_Left = 0"
definition ovrHand_Right :: nat where "ovrHand_Right = 1"
definition LEFT :: nat where "LEFT = 0"
definition RIGHT :: nat where "RIGHT = 1"

text \<open>\<open>ovr::toGlm(const ovrPosef &)\<close>: \<open>translation * orientation\<close>.\<close>

definition toGlm_pose :: "ovrPosef \<Rightarrow> mat4" where
  "toGlm_pose op =
     mat4_mul (glm_translate mat4_identity (Position op)) (glm_mat4_cast (Orientation op))"

text \<open>\<open>ovrLayerEyeFov\<close>: the fields the frame loop writes.\<close>

record ovrLayerEyeFov =
  Viewport :: "nat \<Rightarrow> ovrRecti"
  RenderPose :: "nat \<Rightarrow> ovrPosef"

datatype ovrControllerType = ovrControllerType_LTouch | ovrControllerType_RTouch

record ovrInputState =
  IndexTrigger :: "nat \<Rightarrow> real"
  Buttons :: u32

section \<open>The scene: \<open>Particle\<close> and \<open>ColorCubeScene\<close>\<close>

text \<open>
  The five \<open>Model*\<close> members point to five distinct objects allocated in the constructor;
  the code only compares and copies these pointers, so a \<open>Model*\<close> is one of five tags.
\<close>

datatype Model = factory | co2 | o2 | greenLaser | redLaser

record Particle =
  model :: Model
  transform :: mat4
  velocity :: vec3
  rotation :: vec3

text \<open>
  \<open>vibration\<close> is the sequence of \<open>ovr_SetControllerVibration\<close> calls issued so far
  (controller, frequency, amplitude), oldest first; \<open>clearColor\<close> is the OpenGL clear
  colour, the state \<open>glClearColor\<close> writes.
\<close>

record ColorCubeScene =
  co2Count :: int
  particles :: "Particle list"
  factoryParticle :: Particle
  leftLaser :: Particle
  rightLaser :: Particle
  timer :: int
  vibTimer :: int
  win :: bool
  lose :: bool
  handPoses :: "nat \<Rightarrow> ovrPosef"
  inputstate :: ovrInputState
  fingerTriggerPressed :: "nat \<Rightarrow> bool"
  clearColor :: vec4
  vibration :: "(ovrControllerType \<times> real \<times> real) list"

text \<open>
  What one call of \<open>render\<close> reads from outside the program: the tracking and input state
  of the runtime, the readings of \<open>std::clock()\<close> at its three call sites (\<open>clockHit i\<close>
  is the reading taken if the particle at index \<open>i\<close> is converted), and the vectors built
  from \<open>rand()\<close> for the particles created in this call.
\<close>

record render_env =
  trackedHandPoses :: "nat \<Rightarrow> ovrPosef"
  inputOk :: bool
  inputRead :: ovrInputState
  clockCheck :: int
  clockHit :: "nat \<Rightarrow> int"
  clockSpawn :: int
  spawnVelocity :: vec3
  spawnRotation :: vec3
  lossPosition :: "nat \<Rightarrow> vec3"
  lossVelocity :: "nat \<Rightarrow> vec3"
  lossRotation :: "nat \<Rightarrow> vec3"
  resetVelocity :: "nat \<Rightarrow> vec3"
  resetRotation :: "nat \<Rightarrow> vec3"

text \<open>
  What the library and the platform fix: the macro \<open>CLOCKS_PER_SEC\<close> of \<open><ctime>\<close> and
  \<open>glm::inverse\<close> on \<open>mat4\<close>. Neither is in the repository; both are parameters.
\<close>

record platform =
  CLOCKS_PER_SEC :: int
  glm_inverse :: "mat4 \<Rightarrow> mat4"

definition chimney :: mat4 where
  "chimney = Mat4 (Vec4 1 0 0 0) (Vec4 0 1 0 0) (Vec4 0 0 1 0) (Vec4 0 (-1) (-15) 1)"

text \<open>The particle built at the chimney (constructor, spawn and reset).\<close>

definition chimneyParticle :: "vec3 \<Rightarrow> vec3 \<Rightarrow> Particle" where
  "chimneyParticle vel rot =
     \<lparr>model = co2, transform = glm_scale chimney (Vec3 0.3 0.3 0.3),
      velocity = vel, rotation = rot\<rparr>"

text \<open>The particle built in the loss case, at a random position.\<close>

definition lossParticle :: "vec3 \<Rightarrow> vec3 \<Rightarrow> vec3 \<Rightarrow> Particle" where
  "lossParticle pos vel rot =
     \<lparr>model = co2, transform = glm_scale (glm_translate mat4_identity pos) (Vec3 0.3 0.3 0.3),
      velocity = vel, rotation = rot\<rparr>"

text \<open>A default-constructed \<open>Particle\<close> member (identity transform, zero vectors) with
  its model assigned.\<close>

definition defaultParticle :: "Model \<Rightarrow> Particle" where
  "defaultParticle m =
     \<lparr>model = m, transform = mat4_identity, velocity = Vec3 0 0 0, rotation = Vec3 0 0 0\<rparr>"

text \<open>
  \<open>ColorCubeScene::ColorCubeScene\<close>. \<open>vel i\<close> and \<open>rot i\<close> are the vectors built from
  \<open>rand()\<close> for the particle with index \<open>i\<close>. \<open>vibTimer\<close>, \<open>handPoses\<close> and
  \<open>inputstate\<close> are not initialised by the constructor: their first values are the
  arguments \<open>vt\<close>, \<open>hp\<close> and \<open>ist\<close>. \<open>cc\<close> is the clear colour at that moment,
  \<open>now\<close> the reading of \<open>std::clock()\<close>.
\<close>

definition ColorCubeScene_ctor ::
  "(nat \<Rightarrow> vec3) \<Rightarrow> (nat \<Rightarrow> vec3) \<Rightarrow> int \<Rightarrow> int \<Rightarrow> (nat \<Rightarrow> ovrPosef) \<Rightarrow> ovrInputState \<Rightarrow> vec4
     \<Rightarrow> ColorCubeScene" where
  "ColorCubeScene_ctor vel rot now vt hp ist cc =
     \<lparr>co2Count = 5,
      particles = map (\<lambda>i. chimneyParticle (vel i) (rot i)) [0..<5],
      factoryParticle = (defaultParticle factory)\<lparr>transform := glm_scale chimney (Vec3 0.2 0.2 0.2)\<rparr>,
      leftLaser = defaultParticle greenLaser,
      rightLaser = defaultParticle greenLaser,
      timer = now,
      vibTimer = vt,
      win = False,
      lose = False,
      handPoses = hp,
      inputstate = ist,
      fingerTriggerPressed = (\<lambda>_. False),
      clearColor = cc,
      vibration = []\<rparr>"

subsection \<open>\<open>getControllerData\<close>\<close>

text \<open>\<open>inputRead e\<close> is what \<open>inputstate\<close> holds after the call of
  \<open>ovr_GetInputState\<close>, \<open>inputOk e\<close> whether the call succeeded; the trigger latches
  are only recomputed after a success.\<close>

definition getControllerData :: "render_env \<Rightarrow> ColorCubeScene \<Rightarrow> ColorCubeScene" where
  "getControllerData e s =
     (let s1 = s\<lparr>handPoses := (handPoses s)(LEFT := trackedHandPoses e ovrHand_Left,
                                               RIGHT := trackedHandPoses e ovrHand_Right)\<rparr>;
          s2 = s1\<lparr>inputstate := inputRead e\<rparr>
      in if inputOk e
         then s2\<lparr>fingerTriggerPressed := (fingerTriggerPressed s2)
                    (LEFT := IndexTrigger (inputstate s2) ovrHand_Left > 0.5,
                     RIGHT := IndexTrigger (inputstate s2) ovrHand_Right > 0.5)\<rparr>
         else s2)"

subsection \<open>\<open>update\<close>, block by block\<close>

text \<open>Lines 799-803: the haptic feedback check.\<close>

definition hapticCheck :: "platform \<Rightarrow> render_env \<Rightarrow> ColorCubeScene \<Rightarrow> ColorCubeScene" where
  "hapticCheck pf e s =
     (if \<not> fingerTriggerPressed s LEFT \<or> \<not> fingerTriggerPressed s RIGHT \<or>
         (1000 * real_of_int (clockCheck e - vibTimer s)) / real_of_int (CLOCKS_PER_SEC pf) > 100
      then s\<lparr>vibration := vibration s @
                [(ovrControllerType_LTouch, 0, 0), (ovrControllerType_RTouch, 0, 0)]\<rparr>
      else s)"

text \<open>Lines 807-819: position, rotation, walls.\<close>

definition integrate :: "Particle \<Rightarrow> Particle" where
  "integrate p =
     p\<lparr>transform :=
         Mat4 (col0 (transform p)) (col1 (transform p)) (col2 (transform p))
              (vec4_add (col3 (transform p))
                 (Vec4 (vec3_x (velocity p)) (vec3_y (velocity p)) (vec3_z (velocity p)) 0))\<rparr>"

definition spin :: "Particle \<Rightarrow> Particle" where
  "spin p = p\<lparr>transform := glm_rotate (transform p) 0.05 (rotation p)\<rparr>"

definition checkWalls :: "Particle \<Rightarrow> Particle" where
  "checkWalls p =
     (let t = col3 (transform p);
          p1 = (if vec4_x t < -10 \<or> vec4_x t > 10
                then p\<lparr>velocity := Vec3 (vec3_x (velocity p) * -1) (vec3_y (velocity p)) (vec3_z (velocity p))\<rparr>
                else p);
          p2 = (if vec4_y t < -10 \<or> vec4_y t > 10
                then p1\<lparr>velocity := Vec3 (vec3_x (velocity p1)) (vec3_y (velocity p1) * -1) (vec3_z (velocity p1))\<rparr>
                else p1);
          p3 = (if vec4_z t < -25 \<or> vec4_z t > -5
                then p2\<lparr>velocity := Vec3 (vec3_x (velocity p2)) (vec3_y (velocity p2)) (vec3_z (velocity p2) * -1)\<rparr>
                else p2)
      in p3)"

definition advance :: "Particle \<Rightarrow> Particle" where
  "advance p = checkWalls (spin (integrate p))"

text \<open>
  Lines 828-835 and 839-845: the point-to-line distance of a laser's ray to the particle
  centre, compared with 0.3. When the two points of the ray coincide the \<open>float\<close> quotient
  is \<open>0/0\<close>, a NaN, and \<open>dist <= 0.3f\<close> is false; in HOL \<open>0/0 = 0\<close>, so the case is
  written out.
\<close>

definition rayHit :: "mat4 \<Rightarrow> vec3 \<Rightarrow> bool" where
  "rayHit laserTransform particleCenter =
     (let start = vec3_of_vec4 (col3 laserTransform);
          endPt = vec3_of_vec4 (mat4_mul_vec4 laserTransform (Vec4 0 0 (-1) 1));
          num = glm_length (glm_cross (vec3_sub endPt start) (vec3_sub start particleCenter));
          den = glm_length (vec3_sub endPt start)
      in den \<noteq> 0 \<and> num / den \<le> 0.3)"

text \<open>Lines 822-854: the conversion of one particle, after it has moved.\<close>

definition convert :: "render_env \<Rightarrow> nat \<Rightarrow> Particle \<Rightarrow> ColorCubeScene \<Rightarrow> Particle \<times> ColorCubeScene" where
  "convert e i p s =
     (if model p = co2 \<and> model (leftLaser s) = redLaser \<and> model (rightLaser s) = redLaser
      then
        (let particleCenter = vec3_of_vec4 (col3 (transform p));
             left = rayHit (transform (leftLaser s)) particleCenter;
             right = rayHit (transform (rightLaser s)) particleCenter
         in if left \<and> right
            then (p\<lparr>model := o2\<rparr>,
                  s\<lparr>vibration := vibration s @
                      [(ovrControllerType_LTouch, 0, 1), (ovrControllerType_RTouch, 0, 1)],
                    vibTimer := clockHit e i,
                    co2Count := co2Count s - 1\<rparr>)
            else (p, s))
      else (p, s))"

text \<open>The body of the loop over \<open>particles\<close> for the particle at index \<open>i\<close>, and the loop.\<close>

definition particleStep :: "render_env \<Rightarrow> nat \<Rightarrow> Particle \<Rightarrow> ColorCubeScene \<Rightarrow> Particle \<times> ColorCubeScene" where
  "particleStep e i p s = convert e i (advance p) s"

fun particleLoop :: "render_env \<Rightarrow> nat \<Rightarrow> Particle list \<Rightarrow> ColorCubeScene \<Rightarrow> Particle list \<times> ColorCubeScene" where
  "particleLoop e i [] s = ([], s)"
| "particleLoop e i (p # ps) s =
     (case particleStep e i p s of (p', s') \<Rightarrow>
        (case particleLoop e (Suc i) ps s' of (ps', s'') \<Rightarrow> (p' # ps', s'')))"

definition updateParticles :: "render_env \<Rightarrow> ColorCubeScene \<Rightarrow> ColorCubeScene" where
  "updateParticles e s =
     (case particleLoop e 0 (particles s) s of (ps, s') \<Rightarrow> s'\<lparr>particles := ps\<rparr>)"

text \<open>Lines 857-870: the laser models follow the index triggers.\<close>

definition laserModels :: "ColorCubeScene \<Rightarrow> ColorCubeScene" where
  "laserModels s =
     (let s1 = (if IndexTrigger (inputstate s) ovrHand_Left > 0.5
                then s\<lparr>leftLaser := (leftLaser s)\<lparr>model := redLaser\<rparr>\<rparr>
                else s\<lparr>leftLaser := (leftLaser s)\<lparr>model := greenLaser\<rparr>\<rparr>)
      in if IndexTrigger (inputstate s1) ovrHand_Right > 0.5
         then s1\<lparr>rightLaser := (rightLaser s1)\<lparr>model := redLaser\<rparr>\<rparr>
         else s1\<lparr>rightLaser := (rightLaser s1)\<lparr>model := greenLaser\<rparr>\<rparr>)"

text \<open>Lines 872-886: one particle a second while the game is not won.\<close>

definition spawn :: "platform \<Rightarrow> render_env \<Rightarrow> ColorCubeScene \<Rightarrow> ColorCubeScene" where
  "spawn pf e s =
     (if \<not> win s
      then (let currentTime = clockSpawn e
            in if c_div (currentTime - timer s) (CLOCKS_PER_SEC pf) \<ge> 1
               then s\<lparr>particles := particles s @ [chimneyParticle (spawnVelocity e) (spawnRotation e)],
                      co2Count := co2Count s + 1,
                      timer := currentTime\<rparr>
               else s)
      else s)"

text \<open>Lines 888-901: the loss case.\<close>

definition lossCase :: "render_env \<Rightarrow> ColorCubeScene \<Rightarrow> ColorCubeScene" where
  "lossCase e s =
     (if co2Count s > 10 \<and> \<not> lose s
      then s\<lparr>particles := particles s @
                map (\<lambda>i. lossParticle (lossPosition e i) (lossVelocity e i) (lossRotation e i)) [0..<100],
             lose := True\<rparr>
      else s)"

text \<open>Lines 903-907: the win case.\<close>

definition winCase :: "ColorCubeScene \<Rightarrow> ColorCubeScene" where
  "winCase s =
     (if co2Count s = 0 \<and> \<not> lose s
      then s\<lparr>clearColor := Vec4 0 0.2 0.8 0, win := True\<rparr>
      else s)"

text \<open>Lines 909-925: the game reset.\<close>

definition gameReset :: "render_env \<Rightarrow> ColorCubeScene \<Rightarrow> ColorCubeScene" where
  "gameReset e s =
     (if (win s \<or> lose s) \<and> Buttons (inputstate s) \<noteq> 0
      then s\<lparr>win := False,
             lose := False,
             particles := map (\<lambda>i. chimneyParticle (resetVelocity e i) (resetRotation e i)) [0..<5],
             co2Count := 5,
             clearColor := Vec4 0 0 0.4 0\<rparr>
      else s)"

definition update :: "platform \<Rightarrow> render_env \<Rightarrow> ColorCubeScene \<Rightarrow> ColorCubeScene" where
  "update pf e s =
     gameReset e (winCase (lossCase e (spawn pf e (laserModels (updateParticles e (hapticCheck pf e s))))))"

subsection \<open>\<open>render\<close>\<close>

text \<open>The transform of a laser: the hand pose, scaled to a thin beam of length 20 along
  the hand's \<open>-z\<close> axis.\<close>

definition laserTransform :: "ovrPosef \<Rightarrow> mat4" where
  "laserTransform hp =
     glm_scale (mat4_mul (glm_translate mat4_identity (Position hp)) (glm_mat4_cast (Orientation hp)))
               (Vec3 0.01 0.01 (-20))"

text \<open>
  \<open>ColorCubeScene::render\<close>. Its matrix arguments only reach the shader's uniforms and the
  draw calls, which are not modelled; what remains is the controller data, the two laser
  transforms and \<open>update\<close>.
\<close>

definition render :: "platform \<Rightarrow> render_env \<Rightarrow> ColorCubeScene \<Rightarrow> ColorCubeScene" where
  "render pf e s =
     (let s1 = getControllerData e s;
          s2 = s1\<lparr>leftLaser := (leftLaser s1)\<lparr>transform := laserTransform (handPoses s1 LEFT)\<rparr>\<rparr>;
          s3 = s2\<lparr>rightLaser := (rightLaser s2)\<lparr>transform := laserTransform (handPoses s2 RIGHT)\<rparr>\<rparr>
      in update pf e s3)"

section \<open>The frame loop: \<open>GlfwApp\<close>, \<open>RiftApp\<close>, \<open>ExampleApp\<close>\<close>

text \<open>
  What the program does to the outside, in order: the calls into OpenGL, GLFW and the
  Oculus runtime that the properties below speak about, and what is written to
  \<open>std::cerr\<close>. \<open>SceneRender projection modelview eyepos\<close> is the call
  \<open>cubeScene->render(projection, modelview, _session, eyepos)\<close>; \<open>SubmitFrame\<close> carries the
  frame index and the layer handed to \<open>ovr_SubmitFrame\<close>.
\<close>

datatype event =
    GetEyePoses u32
  | BindDrawFramebuffer
  | AttachColorTexture
  | ClearBuffers
  | glViewport i32 i32 i32 i32
  | SceneRender mat4 mat4 vec3
  | DetachColorTexture
  | UnbindDrawFramebuffer
  | CommitTextureSwapChain
  | SubmitFrame u32 ovrLayerEyeFov
  | MirrorBlit uvec2
  | SwapBuffers
  | RecenterTrackingOrigin
  | Stderr string

datatype glfw_key = GLFW_KEY_R | GLFW_KEY_ESCAPE | GLFW_KEY_OTHER int
datatype glfw_action = GLFW_RELEASE | GLFW_PRESS | GLFW_REPEAT

record RiftApp =
  frame :: u32
  shouldClose :: bool
  eyeProjections :: "nat \<Rightarrow> mat4"
  sceneLayer :: ovrLayerEyeFov
  renderTargetSize :: uvec2
  mirrorSize :: uvec2

record ExampleApp = RiftApp +
  cubeScene :: ColorCubeScene

text \<open>
  What one pass of the loop in \<open>GlfwApp::run\<close> reads from outside: the key events
  delivered by \<open>glfwPollEvents\<close>, whether the user closed the window, the eye poses
  \<open>ovr_GetEyePoses\<close> predicts, the \<open>ovrResult\<close> of \<open>ovr_SubmitFrame\<close>, and what the
  scene reads in its render call for each eye.
\<close>

record frame_input =
  keyEvents :: "(glfw_key \<times> glfw_action) list"
  closeClicked :: bool
  eyePoses :: "nat \<Rightarrow> ovrPosef"
  submitResult :: int
  sceneEnv :: "nat \<Rightarrow> render_env"

text \<open>\<open>OVR_SUCCESS(result)\<close> of \<open>OVR_ErrorCode.h\<close>.\<close>

definition OVR_SUCCESS :: "int \<Rightarrow> bool" where
  "OVR_SUCCESS result = (result \<ge> 0)"

text \<open>\<open>ovr::for_each_eye\<close>: the loop from \<open>ovrEye_Left\<close> while below \<open>ovrEye_Count\<close>.\<close>

function for_each_eye_from :: "nat \<Rightarrow> (nat \<Rightarrow> 's \<Rightarrow> 's) \<Rightarrow> 's \<Rightarrow> 's" where
  "for_each_eye_from eye f s =
     (if eye < ovrEye_Count then for_each_eye_from (eye + 1) f (f eye s) else s)"
  by pat_completeness auto
termination
  by (relation "measure (\<lambda>(eye, f, s). ovrEye_Count - eye)") auto

definition for_each_eye :: "(nat \<Rightarrow> 's \<Rightarrow> 's) \<Rightarrow> 's \<Rightarrow> 's" where
  "for_each_eye f s = for_each_eye_from ovrEye_Left f s"

subsection \<open>\<open>RiftApp::RiftApp\<close>\<close>

text \<open>
  The body of the constructor's loop for one eye. \<open>proj eye\<close> is the projection matrix and
  \<open>fovTextureSize eye\<close> the result of \<open>ovr_GetFovTextureSize\<close>, both from the runtime.
  The cast \<open>(int)_renderTargetSize.x\<close> and the conversions of \<open>eyeSize.w\<close> and
  \<open>eyeSize.h\<close> to \<open>uint32_t\<close> keep the 32 bits; \<open>std::max\<close> compares unsigned, as
  \<open>max\<close> on words does.
\<close>

definition eyeSetup ::
  "(nat \<Rightarrow> mat4) \<Rightarrow> (nat \<Rightarrow> ovrSizei) \<Rightarrow> nat \<Rightarrow> 'a RiftApp_scheme \<Rightarrow> 'a RiftApp_scheme" where
  "eyeSetup proj fovTextureSize eye a =
     (let a1 = a\<lparr>eyeProjections := (eyeProjections a)(eye := proj eye)\<rparr>;
          eyeSize = fovTextureSize eye;
          l1 = (sceneLayer a1)\<lparr>Viewport := (Viewport (sceneLayer a1))
                  (eye := (Viewport (sceneLayer a1) eye)\<lparr>Size := eyeSize\<rparr>)\<rparr>;
          l2 = l1\<lparr>Viewport := (Viewport l1)
                  (eye := (Viewport l1 eye)\<lparr>Pos := Vector2i (uvec2_x (renderTargetSize a1)) 0\<rparr>)\<rparr>;
          a2 = a1\<lparr>sceneLayer := l2\<rparr>;
          a3 = a2\<lparr>renderTargetSize :=
                  UVec2 (uvec2_x (renderTargetSize a2)) (max (uvec2_y (renderTargetSize a2)) (size_h eyeSize))\<rparr>
      in a3\<lparr>renderTargetSize :=
              UVec2 (uvec2_x (renderTargetSize a3) + size_w eyeSize) (uvec2_y (renderTargetSize a3))\<rparr>)"

text \<open>
  The members before the loop: \<open>frame\<close> is \<open>0\<close>, the layer is cleared by \<open>memset\<close>, and
  \<open>_renderTargetSize\<close> is a default-constructed \<open>uvec2\<close>, which the GLM this program is
  written for sets to zero (as it sets a default \<open>mat4\<close> to the identity, on which
  \<open>toGlm\<close> and \<open>render\<close> rely). \<open>eyeProjections\<close> has no value yet: \<open>proj0\<close>.
\<close>

definition RiftApp_members :: "(nat \<Rightarrow> mat4) \<Rightarrow> RiftApp" where
  "RiftApp_members proj0 =
     \<lparr>frame = 0,
      shouldClose = False,
      eyeProjections = proj0,
      sceneLayer = \<lparr>Viewport = (\<lambda>_. \<lparr>Pos = Vector2i 0 0, Size = Sizei 0 0\<rparr>),
                    RenderPose = (\<lambda>_. \<lparr>Orientation = Quat 0 0 0 0, Position = Vec3 0 0 0\<rparr>)\<rparr>,
      renderTargetSize = UVec2 0 0,
      mirrorSize = UVec2 0 0\<rparr>"

definition RiftApp_ctor :: "(nat \<Rightarrow> mat4) \<Rightarrow> (nat \<Rightarrow> mat4) \<Rightarrow> (nat \<Rightarrow> ovrSizei) \<Rightarrow> RiftApp" where
  "RiftApp_ctor proj0 proj fovTextureSize =
     (let a = for_each_eye (eyeSetup proj fovTextureSize) (RiftApp_members proj0)
      in a\<lparr>mirrorSize := UVec2 (uvec2_x (renderTargetSize a) div 4) (uvec2_y (renderTargetSize a) div 4)\<rparr>)"

subsection \<open>Keys\<close>

text \<open>\<open>RiftApp::onKey\<close>, which falls through to \<open>GlfwApp::onKey\<close>.\<close>

definition onKey :: "glfw_key \<Rightarrow> glfw_action \<Rightarrow> ExampleApp \<times> event list \<Rightarrow> ExampleApp \<times> event list" where
  "onKey key action st =
     (case st of (a, evs) \<Rightarrow>
        if action = GLFW_PRESS \<and> key = GLFW_KEY_R then (a, evs @ [RecenterTrackingOrigin])
        else if action \<noteq> GLFW_PRESS then (a, evs)
        else if key = GLFW_KEY_ESCAPE then (a\<lparr>shouldClose := True\<rparr>, evs)
        else (a, evs))"

definition pollEvents :: "frame_input \<Rightarrow> ExampleApp \<Rightarrow> ExampleApp \<times> event list" where
  "pollEvents inp a =
     (case fold (\<lambda>(k, act). onKey k act) (keyEvents inp) (a, []) of (a1, evs) \<Rightarrow>
        (if closeClicked inp then a1\<lparr>shouldClose := True\<rparr> else a1, evs))"

subsection \<open>\<open>RiftApp::draw\<close> and \<open>ExampleApp::renderScene\<close>\<close>

definition renderScene ::
  "platform \<Rightarrow> render_env \<Rightarrow> mat4 \<Rightarrow> mat4 \<Rightarrow> vec3 \<Rightarrow> ExampleApp \<times> event list \<Rightarrow> ExampleApp \<times> event list" where
  "renderScene pf e projection headPose eyepos st =
     (case st of (a, evs) \<Rightarrow>
        (a\<lparr>cubeScene := render pf e (cubeScene a)\<rparr>,
         evs @ [SceneRender projection (glm_inverse pf headPose) eyepos]))"

text \<open>The body of the loop over the eyes in \<open>draw\<close> (lines 567-572).\<close>

definition drawEye ::
  "platform \<Rightarrow> frame_input \<Rightarrow> vec3 \<Rightarrow> nat \<Rightarrow> ExampleApp \<times> event list \<Rightarrow> ExampleApp \<times> event list" where
  "drawEye pf inp eyepos eye st =
     (case st of (a, evs) \<Rightarrow>
        (let vp = Viewport (sceneLayer a) eye;
             evs1 = evs @ [glViewport (pos_x (Pos vp)) (pos_y (Pos vp)) (size_w (Size vp)) (size_h (Size vp))];
             a1 = a\<lparr>sceneLayer := (sceneLayer a)\<lparr>RenderPose :=
                     (RenderPose (sceneLayer a))(eye := eyePoses inp eye)\<rparr>\<rparr>
         in renderScene pf (sceneEnv inp eye) (eyeProjections a1 eye) (toGlm_pose (eyePoses inp eye)) eyepos
              (a1, evs1)))"

text \<open>
  \<open>RiftApp::draw\<close>. The value \<open>ovr_SubmitFrame\<close> returns, \<open>submitResult inp\<close>, is not
  stored or tested by the code, so it does not occur on the right-hand side.
\<close>

definition draw :: "platform \<Rightarrow> frame_input \<Rightarrow> ExampleApp \<Rightarrow> ExampleApp \<times> event list" where
  "draw pf inp a =
     (let evs0 = [GetEyePoses (frame a), BindDrawFramebuffer, AttachColorTexture, ClearBuffers];
          eyepos = Vec3 ((vec3_x (Position (eyePoses inp 0)) + vec3_x (Position (eyePoses inp 1))) / 2)
                        ((vec3_y (Position (eyePoses inp 0)) + vec3_y (Position (eyePoses inp 1))) / 2)
                        ((vec3_z (Position (eyePoses inp 0)) + vec3_z (Position (eyePoses inp 1))) / 2)
      in case for_each_eye (drawEye pf inp eyepos) (a, evs0) of (a1, evs1) \<Rightarrow>
           (a1, evs1 @ [DetachColorTexture, UnbindDrawFramebuffer, CommitTextureSwapChain,
                        SubmitFrame (frame a1) (sceneLayer a1), MirrorBlit (mirrorSize a1)]))"

subsection \<open>\<open>GlfwApp::run\<close>\<close>

text \<open>One pass of the loop body: \<open>++frame; glfwPollEvents(); update(); draw(); finishFrame();\<close>
  (\<open>GlfwApp::update\<close> is empty).\<close>

definition tick :: "platform \<Rightarrow> frame_input \<Rightarrow> ExampleApp \<Rightarrow> ExampleApp \<times> event list" where
  "tick pf inp a =
     (case pollEvents inp (a\<lparr>frame := frame a + 1\<rparr>) of (a1, evs1) \<Rightarrow>
        (case draw pf inp a1 of (a2, evs2) \<Rightarrow> (a2, evs1 @ evs2 @ [SwapBuffers])))"

text \<open>
  The loop \<open>while (!glfwWindowShouldClose(window))\<close>. It runs as long as the outside keeps
  answering: the list holds the inputs of the passes to come, and the result the events of
  each pass made, one list a frame.
\<close>

fun run_loop :: "platform \<Rightarrow> ExampleApp \<Rightarrow> frame_input list \<Rightarrow> ExampleApp \<times> event list list" where
  "run_loop pf a [] = (a, [])"
| "run_loop pf a (inp # inps) =
     (if shouldClose a then (a, [])
      else (case tick pf inp a of (a1, evs) \<Rightarrow>
              (case run_loop pf a1 inps of (a2, rest) \<Rightarrow> (a2, evs # rest))))"

subsection \<open>Start-up and \<open>WinMain\<close>\<close>

text \<open>
  \<open>FAIL(X)\<close> throws \<open>std::runtime_error(X)\<close>; \<open>WinMain\<close> catches it and writes
  \<open>error.what()\<close> to \<open>std::cerr\<close>. The start-up is the chain of checks from
  \<open>ovr_Initialize\<close> to the end of \<open>ExampleApp::initGl\<close>, in the order they run.
\<close>

datatype error = runtime_error string

record startup_env =
  ovrInitializeOk :: bool
  glfwInitOk :: bool
  ovrCreateOk :: bool
  projections0 :: "nat \<Rightarrow> mat4"
  projections :: "nat \<Rightarrow> mat4"
  fovTextureSizes :: "nat \<Rightarrow> ovrSizei"
  windowOk :: bool
  glewInitOk :: bool
  swapChainOk :: bool
  swapChainLengthOk :: bool
  mirrorTextureOk :: bool
  initVelocity :: "nat \<Rightarrow> vec3"
  initRotation :: "nat \<Rightarrow> vec3"
  clockAtStart :: int
  vibTimer0 :: int
  handPoses0 :: "nat \<Rightarrow> ovrPosef"
  inputstate0 :: ovrInputState

definition startup :: "startup_env \<Rightarrow> error + ExampleApp" where
  "startup se =
     (if \<not> ovrInitializeOk se then Inl (runtime_error ''Failed to initialize the Oculus SDK'')
      else if \<not> glfwInitOk se then Inl (runtime_error ''Failed to initialize GLFW'')
      else if \<not> ovrCreateOk se then Inl (runtime_error ''Unable to create HMD session'')
      else
        (let r = RiftApp_ctor (projections0 se) (projections se) (fovTextureSizes se)
         in if \<not> windowOk se then Inl (runtime_error ''Unable to create rendering window'')
            else if \<not> glewInitOk se then Inl (runtime_error ''Failed to initialize GLEW'')
            else if \<not> swapChainOk se then Inl (runtime_error ''Failed to create swap textures'')
            else if \<not> swapChainLengthOk se then Inl (runtime_error ''Unable to count swap chain textures'')
            else if \<not> mirrorTextureOk se then Inl (runtime_error ''Could not create mirror texture'')
            else Inr (RiftApp.extend r
                   (ExampleApp.fields
                      (ColorCubeScene_ctor (initVelocity se) (initRotation se) (clockAtStart se)
                         (vibTimer0 se) (handPoses0 se) (inputstate0 se) (Vec4 0 0 0.4 0))))))"

text \<open>\<open>WinMain\<close>: the result code and everything the run made, frame by frame (a failed
  start-up makes one list, holding the line on \<open>std::cerr\<close>).\<close>

definition WinMain :: "platform \<Rightarrow> startup_env \<Rightarrow> frame_input list \<Rightarrow> int \<times> event list list" where
  "WinMain pf se inps =
     (case startup se of
        Inl (runtime_error msg) \<Rightarrow> (-1, [[Stderr msg]])
      | Inr a \<Rightarrow> (0, snd (run_loop pf a inps)))"

section \<open>What the properties observe\<close>

text \<open>The number of particles whose model is \<open>co2\<close>.\<close>

definition co2Particles :: "Particle list \<Rightarrow> nat" where
  "co2Particles ps = length (filter (\<lambda>p. model p = co2) ps)"

text \<open>The two calls that start the vibration (amplitude 1) and the two that stop it
  (amplitude 0), left controller first, as \<open>update\<close> issues them.\<close>

definition vibOn :: "(ovrControllerType \<times> real \<times> real) list" where
  "vibOn = [(ovrControllerType_LTouch, 0, 1), (ovrControllerType_RTouch, 0, 1)]"

definition vibOff :: "(ovrControllerType \<times> real \<times> real) list" where
  "vibOff = [(ovrControllerType_LTouch, 0, 0), (ovrControllerType_RTouch, 0, 0)]"

text \<open>Both rays pass within 0.3 of the particle's centre.\<close>

definition bothHit :: "ColorCubeScene \<Rightarrow> Particle \<Rightarrow> bool" where
  "bothHit s p =
     (rayHit (transform (leftLaser s)) (vec3_of_vec4 (col3 (transform p))) \<and>
      rayHit (transform (rightLaser s)) (vec3_of_vec4 (col3 (transform p))))"

text \<open>What the loop of a step makes of one particle, given the lasers of the scene.\<close>

definition stepParticle :: "ColorCubeScene \<Rightarrow> Particle \<Rightarrow> Particle" where
  "stepParticle s p =
     (if model p = co2 \<and> model (leftLaser s) = redLaser \<and> model (rightLaser s) = redLaser \<and>
         bothHit s (advance p)
      then (advance p)\<lparr>model := o2\<rparr> else advance p)"

text \<open>The number of particles the loop of a step converts.\<close>

definition conversions :: "render_env \<Rightarrow> ColorCubeScene \<Rightarrow> nat" where
  "conversions e s = co2Particles (particles s) - co2Particles (particles (updateParticles e s))"

text \<open>The condition of the haptic feedback check.\<close>

definition hapticStop :: "platform \<Rightarrow> render_env \<Rightarrow> ColorCubeScene \<Rightarrow> bool" where
  "hapticStop pf e s =
     (\<not> fingerTriggerPressed s LEFT \<or> \<not> fingerTriggerPressed s RIGHT \<or>
      (1000 * real_of_int (clockCheck e - vibTimer s)) / real_of_int (CLOCKS_PER_SEC pf) > 100)"

text \<open>The scene after a sequence of calls of \<open>render\<close>.\<close>

fun run_scene :: "platform \<Rightarrow> ColorCubeScene \<Rightarrow> render_env list \<Rightarrow> ColorCubeScene" where
  "run_scene pf s [] = s"
| "run_scene pf s (e # es) = run_scene pf (render pf e s) es"

text \<open>The counter agrees with the particles, or the game is lost.\<close>

definition countMatches :: "ColorCubeScene \<Rightarrow> bool" where
  "countMatches s = (lose s \<or> co2Count s = int (co2Particles (particles s)))"

text \<open>The scene as the win check of a step finds it.\<close>

definition beforeWinCase :: "platform \<Rightarrow> render_env \<Rightarrow> ColorCubeScene \<Rightarrow> ColorCubeScene" where
  "beforeWinCase pf e s = lossCase e (spawn pf e (laserModels (updateParticles e (hapticCheck pf e s))))"

text \<open>What a frame's events show: the calls of the scene's \<open>render\<close> (projection and
  view matrix), the layers submitted, the viewports set and the lines on \<open>std::cerr\<close>,
  each in order.\<close>

fun sceneRenders :: "event list \<Rightarrow> (mat4 \<times> mat4) list" where
  "sceneRenders [] = []"
| "sceneRenders (SceneRender projection modelview eyepos # evs) = (projection, modelview) # sceneRenders evs"
| "sceneRenders (_ # evs) = sceneRenders evs"

fun submittedLayers :: "event list \<Rightarrow> ovrLayerEyeFov list" where
  "submittedLayers [] = []"
| "submittedLayers (SubmitFrame n layer # evs) = layer # submittedLayers evs"
| "submittedLayers (_ # evs) = submittedLayers evs"

fun viewportCalls :: "event list \<Rightarrow> (i32 \<times> i32 \<times> i32 \<times> i32) list" where
  "viewportCalls [] = []"
| "viewportCalls (glViewport x y w h # evs) = (x, y, w, h) # viewportCalls evs"
| "viewportCalls (_ # evs) = viewportCalls evs"

fun stderrLines :: "event list \<Rightarrow> string list" where
  "stderrLines [] = []"
| "stderrLines (Stderr msg # evs) = msg # stderrLines evs"
| "stderrLines (_ # evs) = stderrLines evs"

text \<open>The point between the two eye positions that \<open>draw\<close> passes on as \<open>eyepos\<close>,
  and the arguments of the \<open>glViewport\<close> call for a viewport.\<close>

definition eyeMidpoint :: "frame_input \<Rightarrow> vec3" where
  "eyeMidpoint inp =
     Vec3 ((vec3_x (Position (eyePoses inp 0)) + vec3_x (Position (eyePoses inp 1))) / 2)
          ((vec3_y (Position (eyePoses inp 0)) + vec3_y (Position (eyePoses inp 1))) / 2)
          ((vec3_z (Position (eyePoses inp 0)) + vec3_z (Position (eyePoses inp 1))) / 2)"

definition viewportArgs :: "ovrRecti \<Rightarrow> i32 \<times> i32 \<times> i32 \<times> i32" where
  "viewportArgs vp = (pos_x (Pos vp), pos_y (Pos vp), size_w (Size vp), size_h (Size vp))"

text \<open>A viewport rectangle and the render target as sets of pixel positions, and the
  extent of two rectangles taken together (from the lowest left or bottom edge to the
  highest right or top edge).\<close>

definition inViewport :: "ovrRecti \<Rightarrow> int \<Rightarrow> int \<Rightarrow> bool" where
  "inViewport vp px py =
     (sint (pos_x (Pos vp)) \<le> px \<and> px < sint (pos_x (Pos vp)) + sint (size_w (Size vp)) \<and>
      sint (pos_y (Pos vp)) \<le> py \<and> py < sint (pos_y (Pos vp)) + sint (size_h (Size vp)))"

definition inRenderTarget :: "uvec2 \<Rightarrow> int \<Rightarrow> int \<Rightarrow> bool" where
  "inRenderTarget rts px py = (0 \<le> px \<and> px < uint (uvec2_x rts) \<and> 0 \<le> py \<and> py < uint (uvec2_y rts))"

definition unionLeft :: "ovrRecti \<Rightarrow> ovrRecti \<Rightarrow> int" where
  "unionLeft a b = min (sint (pos_x (Pos a))) (sint (pos_x (Pos b)))"

definition unionBottom :: "ovrRecti \<Rightarrow> ovrRecti \<Rightarrow> int" where
  "unionBottom a b = min (sint (pos_y (Pos a))) (sint (pos_y (Pos b)))"

definition unionRight :: "ovrRecti \<Rightarrow> ovrRecti \<Rightarrow> int" where
  "unionRight a b =
     max (sint (pos_x (Pos a)) + sint (size_w (Size a))) (sint (pos_x (Pos b)) + sint (size_w (Size b)))"

definition unionTop :: "ovrRecti \<Rightarrow> ovrRecti \<Rightarrow> int" where
  "unionTop a b =
     max (sint (pos_y (Pos a)) + sint (size_h (Size a))) (sint (pos_y (Pos b)) + sint (size_h (Size b)))"

section \<open>Example inputs\<close>

text \<open>
  \<open>translation_inverse\<close> is the inverse of a matrix that only translates,
  which is what \<open>glm::inverse\<close> returns on the poses of the examples; the clock of the
  examples ticks 1000 times a second.
\<close>

definition translation_inverse :: "mat4 \<Rightarrow> mat4" where
  "translation_inverse m =
     Mat4 (col0 m) (col1 m) (col2 m)
          (Vec4 (- vec4_x (col3 m)) (- vec4_y (col3 m)) (- vec4_z (col3 m)) (vec4_w (col3 m)))"

definition demo_platform :: platform where
  "demo_platform = \<lparr>CLOCKS_PER_SEC = 1000, glm_inverse = translation_inverse\<rparr>"

text \<open>A hand held level at the height of the chimney particles, its ray along the z
  axis; an input state with both index triggers pressed and one with both released, no
  button down in either.\<close>

definition demo_hand :: ovrPosef where
  "demo_hand = \<lparr>Orientation = Quat 0 0 0 1, Position = Vec3 0 (-1) 0\<rparr>"

definition demo_pressed :: ovrInputState where
  "demo_pressed = \<lparr>IndexTrigger = (\<lambda>_. 1), Buttons = 0\<rparr>"

definition demo_released :: ovrInputState where
  "demo_released = \<lparr>IndexTrigger = (\<lambda>_. 0), Buttons = 0\<rparr>"

text \<open>What a call of \<open>render\<close> reads when every clock reading in it is \<open>now\<close>.\<close>

definition demo_env :: "int \<Rightarrow> ovrInputState \<Rightarrow> render_env" where
  "demo_env now ist =
     \<lparr>trackedHandPoses = (\<lambda>_. demo_hand), inputOk = True, inputRead = ist,
      clockCheck = now, clockHit = (\<lambda>_. now), clockSpawn = now,
      spawnVelocity = Vec3 0 0 (-0.01), spawnRotation = Vec3 0 0 1,
      lossPosition = (\<lambda>_. Vec3 0 0 (-15)), lossVelocity = (\<lambda>_. Vec3 0 0 (-0.01)),
      lossRotation = (\<lambda>_. Vec3 0 0 1),
      resetVelocity = (\<lambda>_. Vec3 0 0 (-0.01)), resetRotation = (\<lambda>_. Vec3 0 0 1)\<rparr>"

text \<open>The scene as constructed at clock reading 0.\<close>

definition demo_scene :: ColorCubeScene where
  "demo_scene =
     ColorCubeScene_ctor (\<lambda>_. Vec3 0 0 (-0.01)) (\<lambda>_. Vec3 0 0 1) 0 0 (\<lambda>_. demo_hand) demo_released
       (Vec4 0 0 0.4 0)"

text \<open>A particle of the given model at height \<open>-1\<close> and depth \<open>-15\<close>, at \<open>x = px\<close>
  and moving along x; a red or green laser in the example hand.\<close>

definition demo_particle :: "Model \<Rightarrow> real \<Rightarrow> real \<Rightarrow> Particle" where
  "demo_particle m px vx =
     \<lparr>model = m, transform = Mat4 (Vec4 0.3 0 0 0) (Vec4 0 0.3 0 0) (Vec4 0 0 0.3 0) (Vec4 px (-1) (-15) 1),
      velocity = Vec3 vx 0 0, rotation = Vec3 0 0 1\<rparr>"

definition demo_laser :: "Model \<Rightarrow> Particle" where
  "demo_laser m = (defaultParticle m)\<lparr>transform := laserTransform demo_hand\<rparr>"

text \<open>A scene in play, both triggers held, both lasers red, with the given particles
  and counter.\<close>

definition demo_playing :: "Particle list \<Rightarrow> int \<Rightarrow> ColorCubeScene" where
  "demo_playing ps n =
     demo_scene\<lparr>particles := ps, co2Count := n, leftLaser := demo_laser redLaser,
                rightLaser := demo_laser redLaser, inputstate := demo_pressed,
                fingerTriggerPressed := (\<lambda>_. True)\<rparr>"

text \<open>A particle beyond the wall at \<open>x = 10\<close>, still moving outwards.\<close>

definition demo_bouncer :: Particle where
  "demo_bouncer = demo_particle co2 10.5 0.02"

text \<open>A \<open>co2\<close> particle that its next move brings onto both rays.\<close>

definition demo_target :: Particle where
  "demo_target = demo_particle co2 (-0.01) 0.01"

text \<open>A converted particle and a \<open>co2\<close> particle five units off the rays; the scene
  right after a hit at clock reading 50, a won scene and a lost one.\<close>

definition demo_converted :: Particle where
  "demo_converted = demo_particle o2 0 0.01"

definition demo_far :: Particle where
  "demo_far = demo_particle co2 5 0.01"

definition demo_after_hit :: ColorCubeScene where
  "demo_after_hit =
     (demo_playing [demo_converted, demo_far] 1)\<lparr>vibTimer := 50, vibration := vibOn\<rparr>"

definition demo_won :: ColorCubeScene where
  "demo_won =
     (demo_playing [demo_converted] 0)\<lparr>win := True, clearColor := Vec4 0 0.2 0.8 0\<rparr>"

definition demo_lost :: ColorCubeScene where
  "demo_lost = (demo_playing [demo_far] 11)\<lparr>lose := True\<rparr>"

text \<open>Two eyes of 1344 by 1600 pixels, 64 mm apart at a height of 1.7 m, looking straight
  ahead; a frame with nothing on the keyboard and the submission accepted; the application
  built on these.\<close>

definition demo_sizes :: "nat \<Rightarrow> ovrSizei" where
  "demo_sizes eye = Sizei 1344 1600"

definition demo_eye :: "nat \<Rightarrow> ovrPosef" where
  "demo_eye eye =
     (if eye = 0 then \<lparr>Orientation = Quat 0 0 0 1, Position = Vec3 (-0.032) 1.7 0\<rparr>
      else \<lparr>Orientation = Quat 0 0 0 1, Position = Vec3 0.032 1.7 0\<rparr>)"

definition demo_input :: frame_input where
  "demo_input =
     \<lparr>keyEvents = [], closeClicked = False, eyePoses = demo_eye, submitResult = 0,
      sceneEnv = (\<lambda>_. demo_env 10 demo_released)\<rparr>"

text \<open>The same frame with the submission rejected (\<open>ovrError_DisplayLost\<close>).\<close>

definition demo_failed_input :: frame_input where
  "demo_failed_input = demo_input\<lparr>submitResult := -6002\<rparr>"

definition demo_app :: ExampleApp where
  "demo_app =
     RiftApp.extend (RiftApp_ctor (\<lambda>_. mat4_identity) (\<lambda>_. mat4_identity) demo_sizes)
       (ExampleApp.fields demo_scene)"

section \<open>Properties of the scene\<close>

lemma col3_glm_rotate: "col3 (glm_rotate m a v) = col3 m"
  by (simp add: glm_rotate_def Let_def)

lemma advance_fields:
  "model (advance p) = model p"
  "rotation (advance p) = rotation p"
  "col3 (transform (advance p)) =
     vec4_add (col3 (transform p)) (Vec4 (vec3_x (velocity p)) (vec3_y (velocity p)) (vec3_z (velocity p)) 0)"
  by (simp_all add: advance_def checkWalls_def spin_def integrate_def Let_def col3_glm_rotate)

lemma advance_velocity:
  "velocity (advance p) =
     Vec3 (if vec4_x (col3 (transform p)) + vec3_x (velocity p) < -10 \<or>
              vec4_x (col3 (transform p)) + vec3_x (velocity p) > 10
           then - vec3_x (velocity p) else vec3_x (velocity p))
          (if vec4_y (col3 (transform p)) + vec3_y (velocity p) < -10 \<or>
              vec4_y (col3 (transform p)) + vec3_y (velocity p) > 10
           then - vec3_y (velocity p) else vec3_y (velocity p))
          (if vec4_z (col3 (transform p)) + vec3_z (velocity p) < -25 \<or>
              vec4_z (col3 (transform p)) + vec3_z (velocity p) > -5
           then - vec3_z (velocity p) else vec3_z (velocity p))"
  by (simp add: advance_def checkWalls_def spin_def integrate_def Let_def col3_glm_rotate vec4_add_def)

lemma convert_cases:
  "convert e i p s =
     (if model p = co2 \<and> model (leftLaser s) = redLaser \<and> model (rightLaser s) = redLaser \<and>
         rayHit (transform (leftLaser s)) (vec3_of_vec4 (col3 (transform p))) \<and>
         rayHit (transform (rightLaser s)) (vec3_of_vec4 (col3 (transform p)))
      then (p\<lparr>model := o2\<rparr>,
            s\<lparr>vibration := vibration s @ vibOn, vibTimer := clockHit e i, co2Count := co2Count s - 1\<rparr>)
      else (p, s))"
  by (simp add: convert_def Let_def vibOn_def)

lemma particleLoop_length: "length (fst (particleLoop e i ps s)) = length ps"
  by (induction ps arbitrary: i s) (simp_all add: split_def)

lemma particleLoop_frame:
  "particleLoop e i ps s = (ps', s') \<Longrightarrow>
     win s' = win s \<and> lose s' = lose s \<and> timer s' = timer s \<and> particles s' = particles s \<and>
     leftLaser s' = leftLaser s \<and> rightLaser s' = rightLaser s \<and> inputstate s' = inputstate s \<and>
     clearColor s' = clearColor s \<and> fingerTriggerPressed s' = fingerTriggerPressed s \<and>
     handPoses s' = handPoses s \<and> factoryParticle s' = factoryParticle s"
proof (induction ps arbitrary: i s ps' s')
  case Nil
  then show ?case by simp
next
  case (Cons p ps)
  obtain p1 s1 where st: "particleStep e i p s = (p1, s1)" by (cases "particleStep e i p s")
  obtain ps2 s2 where lp: "particleLoop e (Suc i) ps s1 = (ps2, s2)" by (cases "particleLoop e (Suc i) ps s1")
  from Cons.prems st lp have eq: "s' = s2" by simp
  have a: "win s1 = win s \<and> lose s1 = lose s \<and> timer s1 = timer s \<and> particles s1 = particles s \<and>
     leftLaser s1 = leftLaser s \<and> rightLaser s1 = rightLaser s \<and> inputstate s1 = inputstate s \<and>
     clearColor s1 = clearColor s \<and> fingerTriggerPressed s1 = fingerTriggerPressed s \<and>
     handPoses s1 = handPoses s \<and> factoryParticle s1 = factoryParticle s"
    using st by (auto simp: particleStep_def convert_cases split: if_splits)
  from Cons.IH[OF lp] a eq show ?case by simp
qed

lemma particleLoop_count:
  "particleLoop e i ps s = (ps', s') \<Longrightarrow>
     co2Count s' + int (co2Particles ps) = co2Count s + int (co2Particles ps') \<and>
     co2Particles ps' \<le> co2Particles ps \<and>
     vibration s' = vibration s @ concat (replicate (co2Particles ps - co2Particles ps') vibOn)"
proof (induction ps arbitrary: i s ps' s')
  case Nil
  then show ?case by (simp add: co2Particles_def)
next
  case (Cons p ps)
  obtain p1 s1 where st: "particleStep e i p s = (p1, s1)" by (cases "particleStep e i p s")
  obtain ps2 s2 where lp: "particleLoop e (Suc i) ps s1 = (ps2, s2)" by (cases "particleLoop e (Suc i) ps s1")
  from Cons.prems st lp have eq: "s' = s2" "ps' = p1 # ps2" by simp_all
  note ih = Cons.IH[OF lp]
  show ?case
  proof (cases "model p1 = model p")
    case True
    with st have "s1 = s"
      by (auto simp: particleStep_def convert_cases advance_fields split: if_splits)
    with ih eq True show ?thesis by (simp add: co2Particles_def)
  next
    case False
    with st have c: "model p = co2" "model p1 = o2" "co2Count s1 = co2Count s - 1"
      "vibration s1 = vibration s @ vibOn"
      by (auto simp: particleStep_def convert_cases advance_fields split: if_splits)
    have "Suc (co2Particles ps) - co2Particles ps2 = Suc (co2Particles ps - co2Particles ps2)"
      using ih by arith
    with ih eq c show ?thesis
      by (simp add: co2Particles_def)
  qed
qed

lemma particleLoop_map: "fst (particleLoop e i ps s) = map (stepParticle s) ps"
proof (induction ps arbitrary: i s)
  case Nil
  then show ?case by simp
next
  case (Cons p ps)
  obtain p1 s1 where st: "particleStep e i p s = (p1, s1)" by (cases "particleStep e i p s")
  have p1: "p1 = stepParticle s p"
    using st by (auto simp: particleStep_def convert_cases stepParticle_def bothHit_def advance_fields
        split: if_splits)
  have "leftLaser s1 = leftLaser s" "rightLaser s1 = rightLaser s"
    using st by (auto simp: particleStep_def convert_cases split: if_splits)
  then have c: "stepParticle s1 = stepParticle s"
    by (intro ext) (simp add: stepParticle_def bothHit_def)
  from Cons.IH[of "Suc i" s1] st p1 c show ?case by (simp add: split_def)
qed

lemma updateParticles_nth:
  "i < length (particles s) \<Longrightarrow>
     particles (updateParticles e s) ! i = stepParticle s (particles s ! i)"
proof -
  assume i: "i < length (particles s)"
  have "particles (updateParticles e s) = fst (particleLoop e 0 (particles s) s)"
    by (simp add: updateParticles_def split_def)
  with i show ?thesis by (simp add: particleLoop_map)
qed

lemma hapticCheck_cases:
  "hapticCheck pf e s = (if hapticStop pf e s then s\<lparr>vibration := vibration s @ vibOff\<rparr> else s)"
  by (simp add: hapticCheck_def hapticStop_def vibOff_def)

lemma hapticCheck_fields:
  "co2Count (hapticCheck pf e s) = co2Count s"
  "particles (hapticCheck pf e s) = particles s"
  "win (hapticCheck pf e s) = win s"
  "lose (hapticCheck pf e s) = lose s"
  "timer (hapticCheck pf e s) = timer s"
  "inputstate (hapticCheck pf e s) = inputstate s"
  "clearColor (hapticCheck pf e s) = clearColor s"
  "leftLaser (hapticCheck pf e s) = leftLaser s"
  "rightLaser (hapticCheck pf e s) = rightLaser s"
  by (simp_all add: hapticCheck_def)

lemma updateParticles_fields:
  "win (updateParticles e s) = win s"
  "lose (updateParticles e s) = lose s"
  "timer (updateParticles e s) = timer s"
  "inputstate (updateParticles e s) = inputstate s"
  "clearColor (updateParticles e s) = clearColor s"
  "leftLaser (updateParticles e s) = leftLaser s"
  "rightLaser (updateParticles e s) = rightLaser s"
  "length (particles (updateParticles e s)) = length (particles s)"
proof -
  obtain ps' s' where lp: "particleLoop e 0 (particles s) s = (ps', s')"
    by (cases "particleLoop e 0 (particles s) s")
  from particleLoop_frame[OF lp] particleLoop_length[of e 0 "particles s" s] lp
  show "win (updateParticles e s) = win s"
    "lose (updateParticles e s) = lose s"
    "timer (updateParticles e s) = timer s"
    "inputstate (updateParticles e s) = inputstate s"
    "clearColor (updateParticles e s) = clearColor s"
    "leftLaser (updateParticles e s) = leftLaser s"
    "rightLaser (updateParticles e s) = rightLaser s"
    "length (particles (updateParticles e s)) = length (particles s)"
    by (simp_all add: updateParticles_def)
qed

lemma updateParticles_count:
  "co2Count (updateParticles e s) + int (co2Particles (particles s)) =
     co2Count s + int (co2Particles (particles (updateParticles e s)))"
  "co2Particles (particles (updateParticles e s)) \<le> co2Particles (particles s)"
  "vibration (updateParticles e s) =
     vibration s @ concat (replicate (co2Particles (particles s) -
                                      co2Particles (particles (updateParticles e s))) vibOn)"
proof -
  obtain ps' s' where lp: "particleLoop e 0 (particles s) s = (ps', s')"
    by (cases "particleLoop e 0 (particles s) s")
  from particleLoop_count[OF lp] lp
  show "co2Count (updateParticles e s) + int (co2Particles (particles s)) =
     co2Count s + int (co2Particles (particles (updateParticles e s)))"
    "co2Particles (particles (updateParticles e s)) \<le> co2Particles (particles s)"
    "vibration (updateParticles e s) =
     vibration s @ concat (replicate (co2Particles (particles s) -
                                      co2Particles (particles (updateParticles e s))) vibOn)"
    by (simp_all add: updateParticles_def)
qed

lemma laserModels_fields:
  "co2Count (laserModels s) = co2Count s"
  "particles (laserModels s) = particles s"
  "win (laserModels s) = win s"
  "lose (laserModels s) = lose s"
  "timer (laserModels s) = timer s"
  "inputstate (laserModels s) = inputstate s"
  "clearColor (laserModels s) = clearColor s"
  "vibration (laserModels s) = vibration s"
  by (simp_all add: laserModels_def Let_def)

lemma c_div_ge_1: "0 < b \<Longrightarrow> (1 \<le> c_div a b) = (b \<le> a)"
proof -
  assume b: "0 < b"
  show ?thesis
  proof (cases "0 \<le> a")
    case True
    with b have "c_div a b = a div b"
      by (cases "a = 0") (simp_all add: c_div_def sgn_if)
    moreover have "(1 \<le> a div b) = (b \<le> a)"
      using b pos_imp_zdiv_pos_iff[of b a] by linarith
    ultimately show ?thesis by simp
  next
    case False
    with b have "c_div a b = - (\<bar>a\<bar> div b)" by (simp add: c_div_def sgn_if)
    moreover have "0 \<le> \<bar>a\<bar> div b" using b by (simp add: pos_imp_zdiv_nonneg_iff)
    ultimately show ?thesis using False b by simp
  qed
qed

lemma spawn_cases:
  "0 < CLOCKS_PER_SEC pf \<Longrightarrow>
   spawn pf e s =
     (if \<not> win s \<and> CLOCKS_PER_SEC pf \<le> clockSpawn e - timer s
      then s\<lparr>particles := particles s @ [chimneyParticle (spawnVelocity e) (spawnRotation e)],
             co2Count := co2Count s + 1, timer := clockSpawn e\<rparr>
      else s)"
  by (simp add: spawn_def Let_def c_div_ge_1)

lemma co2Particles_append: "co2Particles (xs @ ys) = co2Particles xs + co2Particles ys"
  by (simp add: co2Particles_def)

lemma co2Particles_chimney: "co2Particles (map (\<lambda>i. chimneyParticle (v i) (r i)) xs) = length xs"
  by (induction xs) (simp_all add: co2Particles_def chimneyParticle_def)

lemma co2Particles_loss: "co2Particles (map (\<lambda>i. lossParticle (q i) (v i) (r i)) xs) = length xs"
  by (induction xs) (simp_all add: co2Particles_def lossParticle_def)

lemma co2Particles_single: "co2Particles [chimneyParticle v r] = 1"
  by (simp add: co2Particles_def chimneyParticle_def)

lemma countMatches_update: assumes "countMatches s" shows "countMatches (update pf e s)"
proof -
  let ?h = "hapticCheck pf e s"
  let ?u = "updateParticles e ?h"
  let ?l = "laserModels ?u"
  let ?sp = "spawn pf e ?l"
  let ?lo = "lossCase e ?sp"
  let ?w = "winCase ?lo"
  have h: "countMatches ?h" using assms by (simp add: countMatches_def hapticCheck_fields)
  have u: "countMatches ?u"
    using h updateParticles_count(1)[of e ?h]
    by (auto simp: countMatches_def updateParticles_fields)
  have l: "countMatches ?l" using u by (simp add: countMatches_def laserModels_fields)
  have sp: "countMatches ?sp" using l
    by (auto simp: countMatches_def spawn_def Let_def co2Particles_append co2Particles_single)
  have lo: "countMatches ?lo" using sp by (auto simp: countMatches_def lossCase_def)
  have w: "countMatches ?w" using lo by (auto simp: countMatches_def winCase_def)
  have "countMatches (gameReset e ?w)" using w
    by (auto simp: countMatches_def gameReset_def co2Particles_chimney)
  then show ?thesis by (simp add: update_def)
qed

lemma countMatches_render: "countMatches s \<Longrightarrow> countMatches (render pf e s)"
proof -
  assume a: "countMatches s"
  have "countMatches (getControllerData e s)"
    using a by (simp add: countMatches_def getControllerData_def Let_def)
  then show ?thesis
    unfolding render_def Let_def
    by (intro countMatches_update) (simp add: countMatches_def)
qed

lemma countMatches_run: "countMatches s \<Longrightarrow> countMatches (run_scene pf s es)"
  by (induction es arbitrary: s) (simp_all add: countMatches_render)

lemma countMatches_ctor: "countMatches (ColorCubeScene_ctor vel rot now vt hp ist cc)"
  by (simp add: countMatches_def ColorCubeScene_ctor_def co2Particles_chimney)

text \<open>
  Claim C9. In every state reached from the constructor by calls of \<open>render\<close> in which
  \<open>lose\<close> is false, \<open>co2Count\<close> is the number of particles whose model is \<open>co2\<close>.
  The loss case, when it fires, appends 100 \<open>co2\<close> particles and leaves \<open>co2Count\<close>
  as it is, so the equality is only kept while \<open>lose\<close> is false.
\<close>

theorem counter_invariant:
  "(\<not> lose (run_scene pf (ColorCubeScene_ctor vel rot now vt hp ist cc) es) \<longrightarrow>
      co2Count (run_scene pf (ColorCubeScene_ctor vel rot now vt hp ist cc) es) =
      int (co2Particles (particles (run_scene pf (ColorCubeScene_ctor vel rot now vt hp ist cc) es)))) \<and>
   (co2Count s > 10 \<and> \<not> lose s \<longrightarrow>
      lose (lossCase e s) \<and> co2Count (lossCase e s) = co2Count s \<and>
      co2Particles (particles (lossCase e s)) = co2Particles (particles s) + 100)"
proof -
  have "countMatches (run_scene pf (ColorCubeScene_ctor vel rot now vt hp ist cc) es)"
    by (rule countMatches_run[OF countMatches_ctor])
  then show ?thesis
    by (auto simp: countMatches_def lossCase_def co2Particles_append co2Particles_loss)
qed

text \<open>
  Claim C6. One step of a particle first adds the velocity to the translation column of
  its transform (the rotation leaves that column alone) and then negates each velocity
  component on its own when the new translation is outside the region: below \<open>-10\<close> or
  above \<open>10\<close> on x and on y, below \<open>-25\<close> or above \<open>-5\<close> on z; a position on the
  boundary itself is inside. A particle at \<open>x = 10.5\<close> with \<open>velocity.x = 0.02\<close> leaves
  the step with \<open>velocity.x = -0.02\<close>. The loop of a step does this to every particle
  of the scene.
\<close>

theorem particle_bounce:
  "transform (fst (particleStep e i p s)) = transform (advance p) \<and>
   velocity (fst (particleStep e i p s)) = velocity (advance p) \<and>
   col3 (transform (advance p)) =
     vec4_add (col3 (transform p)) (Vec4 (vec3_x (velocity p)) (vec3_y (velocity p)) (vec3_z (velocity p)) 0) \<and>
   vec3_x (velocity (advance p)) =
     (if vec4_x (col3 (transform (advance p))) < -10 \<or> vec4_x (col3 (transform (advance p))) > 10
      then - vec3_x (velocity p) else vec3_x (velocity p)) \<and>
   vec3_y (velocity (advance p)) =
     (if vec4_y (col3 (transform (advance p))) < -10 \<or> vec4_y (col3 (transform (advance p))) > 10
      then - vec3_y (velocity p) else vec3_y (velocity p)) \<and>
   vec3_z (velocity (advance p)) =
     (if vec4_z (col3 (transform (advance p))) < -25 \<or> vec4_z (col3 (transform (advance p))) > -5
      then - vec3_z (velocity p) else vec3_z (velocity p)) \<and>
   (vec4_x (col3 (transform p)) = 10.5 \<and> vec3_x (velocity p) = 0.02 \<longrightarrow>
      vec3_x (velocity (advance p)) = -0.02) \<and>
   (\<forall>k < length (particles s).
      transform (particles (updateParticles e s) ! k) = transform (advance (particles s ! k)) \<and>
      velocity (particles (updateParticles e s) ! k) = velocity (advance (particles s ! k)))"
proof -
  have a: "transform (fst (particleStep e i p s)) = transform (advance p)"
    "velocity (fst (particleStep e i p s)) = velocity (advance p)"
    by (simp_all add: particleStep_def convert_cases)
  have b: "vec4_x (col3 (transform (advance p))) = vec4_x (col3 (transform p)) + vec3_x (velocity p)"
    "vec4_y (col3 (transform (advance p))) = vec4_y (col3 (transform p)) + vec3_y (velocity p)"
    "vec4_z (col3 (transform (advance p))) = vec4_z (col3 (transform p)) + vec3_z (velocity p)"
    by (simp_all add: advance_fields vec4_add_def)
  have c: "col3 (transform (advance p)) =
     vec4_add (col3 (transform p)) (Vec4 (vec3_x (velocity p)) (vec3_y (velocity p)) (vec3_z (velocity p)) 0)"
    by (rule advance_fields(3))
  have d: "vec3_x (velocity (advance p)) =
     (if vec4_x (col3 (transform (advance p))) < -10 \<or> vec4_x (col3 (transform (advance p))) > 10
      then - vec3_x (velocity p) else vec3_x (velocity p))"
    "vec3_y (velocity (advance p)) =
     (if vec4_y (col3 (transform (advance p))) < -10 \<or> vec4_y (col3 (transform (advance p))) > 10
      then - vec3_y (velocity p) else vec3_y (velocity p))"
    "vec3_z (velocity (advance p)) =
     (if vec4_z (col3 (transform (advance p))) < -25 \<or> vec4_z (col3 (transform (advance p))) > -5
      then - vec3_z (velocity p) else vec3_z (velocity p))"
    by (simp_all add: b advance_velocity)
  have f: "vec4_x (col3 (transform p)) = 10.5 \<and> vec3_x (velocity p) = 0.02 \<longrightarrow>
      vec3_x (velocity (advance p)) = -0.02"
    by (simp add: advance_velocity)
  have g: "\<forall>k < length (particles s).
      transform (particles (updateParticles e s) ! k) = transform (advance (particles s ! k)) \<and>
      velocity (particles (updateParticles e s) ! k) = velocity (advance (particles s ! k))"
    by (simp add: updateParticles_nth stepParticle_def)
  from a c d f g show ?thesis by blast
qed

theorem particle_bounce_witness:
  "vec4_x (col3 (transform demo_bouncer)) = 10.5 \<and>
   vec3_x (velocity demo_bouncer) = 0.02 \<and>
   vec3_x (velocity (advance demo_bouncer)) = -0.02 \<and>
   vec4_x (col3 (transform (advance demo_bouncer))) = 10.52 \<and>
   (0::nat) < length (particles (demo_playing [demo_bouncer] 1)) \<and>
   vec3_x (velocity (particles (updateParticles (demo_env 10 demo_pressed)
                                  (demo_playing [demo_bouncer] 1)) ! 0)) = -0.02"
proof -
  let ?s = "demo_playing [demo_bouncer] 1"
  note T = particle_bounce[of "demo_env 10 demo_pressed" 0 demo_bouncer ?s]
  have f: "vec4_x (col3 (transform demo_bouncer)) = 10.5" "vec3_x (velocity demo_bouncer) = 0.02"
    by (simp_all add: demo_bouncer_def demo_particle_def)
  have p: "particles ?s = [demo_bouncer]" by (simp add: demo_playing_def)
  from T f have v: "vec3_x (velocity (advance demo_bouncer)) = -0.02" by blast
  from T have "col3 (transform (advance demo_bouncer)) =
     vec4_add (col3 (transform demo_bouncer))
       (Vec4 (vec3_x (velocity demo_bouncer)) (vec3_y (velocity demo_bouncer)) (vec3_z (velocity demo_bouncer)) 0)"
    by blast
  then have x: "vec4_x (col3 (transform (advance demo_bouncer))) = 10.52"
    by (simp add: vec4_add_def f)
  have l: "(0::nat) < length (particles ?s)" by (simp add: p)
  with T have "velocity (particles (updateParticles (demo_env 10 demo_pressed) ?s) ! 0) =
      velocity (advance (particles ?s ! 0))"
    by blast
  then have u: "vec3_x (velocity (particles (updateParticles (demo_env 10 demo_pressed) ?s) ! 0)) = -0.02"
    using v by (simp add: p)
  from f v x l u show ?thesis by blast
qed

text \<open>
  Claim C5. A particle whose model is \<open>co2\<close>, met after its move by both rays within 0.3
  of its centre while both lasers are red, is converted in that step: its model becomes
  \<open>o2\<close>, the counter goes down by one, both controllers are set vibrating and the hit
  time is taken. A particle whose model is \<open>o2\<close> only moves: a further step on a
  converted particle leaves the scene, and so the counter, unchanged whatever the rays do.
  The loop of a step converts every particle of the scene that is met so, and takes from the
  counter the number of particles it converted.
\<close>

theorem two_handed_conversion:
  "(model p = co2 \<and> model (leftLaser s) = redLaser \<and> model (rightLaser s) = redLaser \<and>
    bothHit s (advance p) \<longrightarrow>
      particleStep e i p s =
        ((advance p)\<lparr>model := o2\<rparr>,
         s\<lparr>vibration := vibration s @ vibOn, vibTimer := clockHit e i, co2Count := co2Count s - 1\<rparr>)) \<and>
   (model p = o2 \<longrightarrow> particleStep e i p s = (advance p, s) \<and> model (advance p) = o2) \<and>
   (model (fst (particleStep e i p s)) = o2 \<longrightarrow>
      snd (particleStep e' j (fst (particleStep e i p s)) s') = s' \<and>
      model (fst (particleStep e' j (fst (particleStep e i p s)) s')) = o2) \<and>
   (\<forall>k < length (particles s).
      model (particles s ! k) = co2 \<and> model (leftLaser s) = redLaser \<and>
      model (rightLaser s) = redLaser \<and> bothHit s (advance (particles s ! k)) \<longrightarrow>
        particles (updateParticles e s) ! k = (advance (particles s ! k))\<lparr>model := o2\<rparr>) \<and>
   (\<forall>k < length (particles s).
      model (particles s ! k) = o2 \<longrightarrow> particles (updateParticles e s) ! k = advance (particles s ! k)) \<and>
   co2Count (updateParticles e s) = co2Count s - int (conversions e s)"
proof -
  have a: "model p = co2 \<and> model (leftLaser s) = redLaser \<and> model (rightLaser s) = redLaser \<and>
    bothHit s (advance p) \<longrightarrow>
      particleStep e i p s =
        ((advance p)\<lparr>model := o2\<rparr>,
         s\<lparr>vibration := vibration s @ vibOn, vibTimer := clockHit e i, co2Count := co2Count s - 1\<rparr>)"
    "model p = o2 \<longrightarrow> particleStep e i p s = (advance p, s) \<and> model (advance p) = o2"
    "model (fst (particleStep e i p s)) = o2 \<longrightarrow>
      snd (particleStep e' j (fst (particleStep e i p s)) s') = s' \<and>
      model (fst (particleStep e' j (fst (particleStep e i p s)) s')) = o2"
    by (simp_all add: particleStep_def convert_cases advance_fields bothHit_def)
  have b: "\<forall>k < length (particles s).
      model (particles s ! k) = co2 \<and> model (leftLaser s) = redLaser \<and>
      model (rightLaser s) = redLaser \<and> bothHit s (advance (particles s ! k)) \<longrightarrow>
        particles (updateParticles e s) ! k = (advance (particles s ! k))\<lparr>model := o2\<rparr>"
    "\<forall>k < length (particles s).
      model (particles s ! k) = o2 \<longrightarrow> particles (updateParticles e s) ! k = advance (particles s ! k)"
    by (simp_all add: updateParticles_nth stepParticle_def)
  have c: "co2Count (updateParticles e s) = co2Count s - int (conversions e s)"
    using updateParticles_count(1)[of e s] updateParticles_count(2)[of e s]
    by (simp add: conversions_def)
  from a b c show ?thesis by blast
qed

lemma rayHit_demo: "rayHit (laserTransform demo_hand) (Vec3 0 (-1) z)"
  by (simp add: rayHit_def laserTransform_def demo_hand_def glm_scale_def glm_translate_def
      mat4_mul_def mat4_mul_vec4_def glm_mat4_cast_def mat4_identity_def vec4_add_def vec4_scale_def
      vec3_of_vec4_def vec3_sub_def glm_cross_def glm_length_def glm_dot_def Let_def)

lemma demo_center: "vec3_of_vec4 (col3 (transform (advance demo_target))) = Vec3 0 (-1) (-15)"
  by (simp add: advance_fields demo_target_def demo_particle_def vec4_add_def vec3_of_vec4_def)

theorem two_handed_conversion_witness:
  "model demo_target = co2 \<and>
   model (leftLaser (demo_playing [demo_target] 1)) = redLaser \<and>
   model (rightLaser (demo_playing [demo_target] 1)) = redLaser \<and>
   bothHit (demo_playing [demo_target] 1) (advance demo_target) \<and>
   model (fst (particleStep (demo_env 10 demo_pressed) 0 demo_target
                  (demo_playing [demo_target] 1))) = o2 \<and>
   co2Count (snd (particleStep (demo_env 10 demo_pressed) 0 demo_target
                  (demo_playing [demo_target] 1))) = 0 \<and>
   snd (particleStep (demo_env 20 demo_pressed) 0
          (fst (particleStep (demo_env 10 demo_pressed) 0 demo_target
                  (demo_playing [demo_target] 1)))
          (snd (particleStep (demo_env 10 demo_pressed) 0 demo_target
                  (demo_playing [demo_target] 1)))) =
     snd (particleStep (demo_env 10 demo_pressed) 0 demo_target
                  (demo_playing [demo_target] 1)) \<and>
   (0::nat) < length (particles (demo_playing [demo_target] 1)) \<and>
   model (particles (updateParticles (demo_env 10 demo_pressed) (demo_playing [demo_target] 1)) ! 0) = o2 \<and>
   co2Count (updateParticles (demo_env 10 demo_pressed) (demo_playing [demo_target] 1)) = 0"
proof -
  let ?p = "demo_target"
  let ?s = "demo_playing [?p] 1"
  have m: "model ?p = co2" by (simp add: demo_target_def demo_particle_def)
  have l: "model (leftLaser ?s) = redLaser" "model (rightLaser ?s) = redLaser"
    by (simp_all add: demo_playing_def demo_laser_def defaultParticle_def)
  have h: "bothHit ?s (advance ?p)"
    using demo_center rayHit_demo[of "-15"]
    by (simp add: bothHit_def demo_playing_def demo_laser_def)
  have c: "co2Count ?s = 1" by (simp add: demo_playing_def)
  note T = two_handed_conversion[of ?p ?s "demo_env 10 demo_pressed" 0 "demo_env 20 demo_pressed" 0
      "snd (particleStep (demo_env 10 demo_pressed) 0 ?p ?s)"]
  have s1: "particleStep (demo_env 10 demo_pressed) 0 ?p ?s =
        ((advance ?p)\<lparr>model := o2\<rparr>,
         ?s\<lparr>vibration := vibration ?s @ vibOn, vibTimer := clockHit (demo_env 10 demo_pressed) 0,
            co2Count := co2Count ?s - 1\<rparr>)"
    using T m l h by blast
  have m2: "model (fst (particleStep (demo_env 10 demo_pressed) 0 ?p ?s)) = o2"
    by (simp add: s1)
  have c2: "co2Count (snd (particleStep (demo_env 10 demo_pressed) 0 ?p ?s)) = 0"
    by (simp add: s1 c)
  have s2: "snd (particleStep (demo_env 20 demo_pressed) 0
          (fst (particleStep (demo_env 10 demo_pressed) 0 ?p ?s))
          (snd (particleStep (demo_env 10 demo_pressed) 0 ?p ?s))) =
     snd (particleStep (demo_env 10 demo_pressed) 0 ?p ?s)"
    using T m2 by blast
  have p: "particles ?s = [?p]" by (simp add: demo_playing_def)
  then have n: "(0::nat) < length (particles ?s)" "particles ?s ! 0 = ?p" by simp_all
  from T n m l h have u0: "particles (updateParticles (demo_env 10 demo_pressed) ?s) ! 0 =
      (advance ?p)\<lparr>model := o2\<rparr>"
    by metis
  then have m3: "model (particles (updateParticles (demo_env 10 demo_pressed) ?s) ! 0) = o2" by simp
  have "length (particles (updateParticles (demo_env 10 demo_pressed) ?s)) = 1"
    by (simp add: updateParticles_fields p)
  with u0 have pu: "particles (updateParticles (demo_env 10 demo_pressed) ?s) = [(advance ?p)\<lparr>model := o2\<rparr>]"
    by (cases "particles (updateParticles (demo_env 10 demo_pressed) ?s)") simp_all
  have cv: "conversions (demo_env 10 demo_pressed) ?s = 1"
    by (simp add: conversions_def pu p co2Particles_def m)
  from T have "co2Count (updateParticles (demo_env 10 demo_pressed) ?s) =
      co2Count ?s - int (conversions (demo_env 10 demo_pressed) ?s)"
    by blast
  then have c3: "co2Count (updateParticles (demo_env 10 demo_pressed) ?s) = 0"
    by (simp add: cv c)
  from m l h m2 c2 s2 n m3 c3 show ?thesis by blast
qed

text \<open>
  Claim C7. In play (neither won nor lost), the spawn block of \<open>update\<close> appends exactly
  one \<open>co2\<close> particle at the chimney, adds one to the counter and sets \<open>timer\<close> to
  the clock reading as soon as that reading is a full second (\<open>CLOCKS_PER_SEC\<close> ticks)
  or more past \<open>timer\<close>; before that it changes nothing. A whole \<open>update\<close> of a game
  in play with at most 9 on the counter and no button pressed appends that one particle
  and no other, or none.
\<close>

lemma update_playing:
  assumes cps: "0 < CLOCKS_PER_SEC pf" and nw: "\<not> win s" and nl: "\<not> lose s"
    and c: "co2Count s \<le> 9" and nb: "Buttons (inputstate s) = 0"
  shows "particles (update pf e s) =
           particles (updateParticles e (hapticCheck pf e s)) @
           (if CLOCKS_PER_SEC pf \<le> clockSpawn e - timer s
            then [chimneyParticle (spawnVelocity e) (spawnRotation e)] else [])"
    "co2Count (update pf e s) =
           co2Count (updateParticles e (hapticCheck pf e s)) +
           (if CLOCKS_PER_SEC pf \<le> clockSpawn e - timer s then 1 else 0)"
    "timer (update pf e s) =
           (if CLOCKS_PER_SEC pf \<le> clockSpawn e - timer s then clockSpawn e else timer s)"
proof -
  let ?h = "hapticCheck pf e s"
  let ?u = "updateParticles e ?h"
  let ?l = "laserModels ?u"
  let ?sp = "spawn pf e ?l"
  have "co2Count ?u \<le> co2Count ?h"
    using updateParticles_count(1)[of e ?h] updateParticles_count(2)[of e ?h] by linarith
  then have l: "co2Count ?l \<le> 9" "\<not> lose ?l" "\<not> win ?l" "Buttons (inputstate ?l) = 0"
    "timer ?l = timer s" "particles ?l = particles ?u" "co2Count ?l = co2Count ?u"
    using c nl nw nb by (simp_all add: laserModels_fields updateParticles_fields hapticCheck_fields)
  have sp: "?sp =
      (if CLOCKS_PER_SEC pf \<le> clockSpawn e - timer s
       then ?l\<lparr>particles := particles ?l @ [chimneyParticle (spawnVelocity e) (spawnRotation e)],
              co2Count := co2Count ?l + 1, timer := clockSpawn e\<rparr>
       else ?l)"
    using cps l by (simp add: spawn_cases)
  have q: "co2Count ?sp \<le> 10" "\<not> lose ?sp" "Buttons (inputstate ?sp) = 0"
    using l by (simp_all add: sp)
  have lo: "lossCase e ?sp = ?sp" using q by (simp add: lossCase_def)
  have u: "particles (update pf e s) = particles ?sp" "co2Count (update pf e s) = co2Count ?sp"
    "timer (update pf e s) = timer ?sp"
    using q by (simp_all add: update_def lo winCase_def gameReset_def)
  show "particles (update pf e s) =
           particles (updateParticles e (hapticCheck pf e s)) @
           (if CLOCKS_PER_SEC pf \<le> clockSpawn e - timer s
            then [chimneyParticle (spawnVelocity e) (spawnRotation e)] else [])"
    "co2Count (update pf e s) =
           co2Count (updateParticles e (hapticCheck pf e s)) +
           (if CLOCKS_PER_SEC pf \<le> clockSpawn e - timer s then 1 else 0)"
    "timer (update pf e s) =
           (if CLOCKS_PER_SEC pf \<le> clockSpawn e - timer s then clockSpawn e else timer s)"
    using l by (simp_all add: u sp)
qed

theorem spawn_cadence:
  "0 < CLOCKS_PER_SEC pf \<and> \<not> win s \<and> \<not> lose s \<longrightarrow>
     (CLOCKS_PER_SEC pf \<le> clockSpawn e - timer s \<longrightarrow>
        spawn pf e s =
          s\<lparr>particles := particles s @ [chimneyParticle (spawnVelocity e) (spawnRotation e)],
            co2Count := co2Count s + 1, timer := clockSpawn e\<rparr> \<and>
        model (chimneyParticle (spawnVelocity e) (spawnRotation e)) = co2) \<and>
     (clockSpawn e - timer s < CLOCKS_PER_SEC pf \<longrightarrow> spawn pf e s = s) \<and>
     (co2Count s \<le> 9 \<and> Buttons (inputstate s) = 0 \<longrightarrow>
        particles (update pf e s) =
          particles (updateParticles e (hapticCheck pf e s)) @
          (if CLOCKS_PER_SEC pf \<le> clockSpawn e - timer s
           then [chimneyParticle (spawnVelocity e) (spawnRotation e)] else []) \<and>
        co2Count (update pf e s) =
          co2Count (updateParticles e (hapticCheck pf e s)) +
          (if CLOCKS_PER_SEC pf \<le> clockSpawn e - timer s then 1 else 0) \<and>
        timer (update pf e s) =
          (if CLOCKS_PER_SEC pf \<le> clockSpawn e - timer s then clockSpawn e else timer s))"
proof -
  have a: "0 < CLOCKS_PER_SEC pf \<and> \<not> win s \<and> \<not> lose s \<longrightarrow>
     (CLOCKS_PER_SEC pf \<le> clockSpawn e - timer s \<longrightarrow>
        spawn pf e s =
          s\<lparr>particles := particles s @ [chimneyParticle (spawnVelocity e) (spawnRotation e)],
            co2Count := co2Count s + 1, timer := clockSpawn e\<rparr> \<and>
        model (chimneyParticle (spawnVelocity e) (spawnRotation e)) = co2) \<and>
     (clockSpawn e - timer s < CLOCKS_PER_SEC pf \<longrightarrow> spawn pf e s = s)"
    by (simp add: spawn_cases chimneyParticle_def)
  from a update_playing[of pf s e] show ?thesis by blast
qed

theorem spawn_cadence_witness:
  "0 < CLOCKS_PER_SEC demo_platform \<and> \<not> win demo_scene \<and> \<not> lose demo_scene \<and>
   CLOCKS_PER_SEC demo_platform \<le> clockSpawn (demo_env 1000 demo_released) - timer demo_scene \<and>
   length (particles (spawn demo_platform (demo_env 1000 demo_released) demo_scene)) = 6 \<and>
   co2Count (spawn demo_platform (demo_env 1000 demo_released) demo_scene) = 6 \<and>
   timer (spawn demo_platform (demo_env 1000 demo_released) demo_scene) = 1000 \<and>
   clockSpawn (demo_env 999 demo_released) - timer demo_scene < CLOCKS_PER_SEC demo_platform \<and>
   spawn demo_platform (demo_env 999 demo_released) demo_scene = demo_scene \<and>
   co2Count demo_scene \<le> 9 \<and> Buttons (inputstate demo_scene) = 0 \<and>
   length (particles (update demo_platform (demo_env 1000 demo_released) demo_scene)) = 6 \<and>
   timer (update demo_platform (demo_env 1000 demo_released) demo_scene) = 1000 \<and>
   length (particles (update demo_platform (demo_env 999 demo_released) demo_scene)) = 5 \<and>
   timer (update demo_platform (demo_env 999 demo_released) demo_scene) = 0"
proof -
  note T1 = spawn_cadence[of demo_platform demo_scene "demo_env 1000 demo_released"]
  note T2 = spawn_cadence[of demo_platform demo_scene "demo_env 999 demo_released"]
  have f: "0 < CLOCKS_PER_SEC demo_platform" "\<not> win demo_scene" "\<not> lose demo_scene"
    "co2Count demo_scene \<le> 9" "Buttons (inputstate demo_scene) = 0"
    "timer demo_scene = 0" "length (particles demo_scene) = 5" "co2Count demo_scene = 5"
    by (simp_all add: demo_platform_def demo_scene_def demo_released_def ColorCubeScene_ctor_def)
  have e1: "CLOCKS_PER_SEC demo_platform \<le> clockSpawn (demo_env 1000 demo_released) - timer demo_scene"
    and e2: "clockSpawn (demo_env 999 demo_released) - timer demo_scene < CLOCKS_PER_SEC demo_platform"
    by (simp_all add: f demo_platform_def demo_env_def)
  from T1 f e1 have s1: "spawn demo_platform (demo_env 1000 demo_released) demo_scene =
          demo_scene\<lparr>particles := particles demo_scene @
              [chimneyParticle (spawnVelocity (demo_env 1000 demo_released))
                 (spawnRotation (demo_env 1000 demo_released))],
            co2Count := co2Count demo_scene + 1, timer := clockSpawn (demo_env 1000 demo_released)\<rparr>"
    by blast
  from T2 f e2 have s2: "spawn demo_platform (demo_env 999 demo_released) demo_scene = demo_scene"
    by blast
  from T1 f e1 have u1: "particles (update demo_platform (demo_env 1000 demo_released) demo_scene) =
          particles (updateParticles (demo_env 1000 demo_released)
             (hapticCheck demo_platform (demo_env 1000 demo_released) demo_scene)) @
          [chimneyParticle (spawnVelocity (demo_env 1000 demo_released))
             (spawnRotation (demo_env 1000 demo_released))]"
    "timer (update demo_platform (demo_env 1000 demo_released) demo_scene) =
          clockSpawn (demo_env 1000 demo_released)"
    by simp_all
  from T2 f e2 have u2: "particles (update demo_platform (demo_env 999 demo_released) demo_scene) =
          particles (updateParticles (demo_env 999 demo_released)
             (hapticCheck demo_platform (demo_env 999 demo_released) demo_scene))"
    "timer (update demo_platform (demo_env 999 demo_released) demo_scene) = timer demo_scene"
    by simp_all
  have l1: "length (particles (update demo_platform (demo_env 1000 demo_released) demo_scene)) = 6"
    by (simp add: u1 updateParticles_fields hapticCheck_fields f)
  have l2: "length (particles (update demo_platform (demo_env 999 demo_released) demo_scene)) = 5"
    by (simp add: u2 updateParticles_fields hapticCheck_fields f)
  have t1: "timer (update demo_platform (demo_env 1000 demo_released) demo_scene) = 1000"
    "timer (update demo_platform (demo_env 999 demo_released) demo_scene) = 0"
    by (simp_all only: u1 u2 f) (simp_all add: demo_env_def)
  have a1: "length (particles (spawn demo_platform (demo_env 1000 demo_released) demo_scene)) = 6"
    "co2Count (spawn demo_platform (demo_env 1000 demo_released) demo_scene) = 6"
    "timer (spawn demo_platform (demo_env 1000 demo_released) demo_scene) = 1000"
    by (simp_all only: s1) (simp_all add: f demo_env_def)
  from f e1 e2 a1 s2 l1 l2 t1 show ?thesis by (simp only:) simp
qed

lemma update_lost:
  assumes cps: "0 < CLOCKS_PER_SEC pf" and nw: "\<not> win s" and lo: "lose s"
    and nb: "Buttons (inputstate s) = 0"
  shows "update pf e s = spawn pf e (laserModels (updateParticles e (hapticCheck pf e s)))"
proof -
  let ?l = "laserModels (updateParticles e (hapticCheck pf e s))"
  have l: "lose ?l" "\<not> win ?l" "Buttons (inputstate ?l) = 0"
    using nw lo nb by (simp_all add: laserModels_fields updateParticles_fields hapticCheck_fields)
  have sp: "lose (spawn pf e ?l)" "\<not> win (spawn pf e ?l)" "Buttons (inputstate (spawn pf e ?l)) = 0"
    using l cps by (simp_all add: spawn_cases)
  show ?thesis
    using sp by (simp add: update_def lossCase_def winCase_def gameReset_def)
qed

text \<open>
  Claim C10. The spawn block looks at \<open>win\<close> only. Whenever \<open>win\<close> is false and a
  second has passed it appends a \<open>co2\<close> particle and adds one to the counter, also when
  \<open>lose\<close> is true; and a whole \<open>update\<close> of a lost game with no button pressed ends
  with one particle more, still lost and not won, so the particles keep growing until
  the reset.
\<close>

theorem spawn_ignores_lose:
  "0 < CLOCKS_PER_SEC pf \<and> \<not> win s \<and> CLOCKS_PER_SEC pf \<le> clockSpawn e - timer s \<longrightarrow>
     spawn pf e s =
       s\<lparr>particles := particles s @ [chimneyParticle (spawnVelocity e) (spawnRotation e)],
         co2Count := co2Count s + 1, timer := clockSpawn e\<rparr> \<and>
     (lose s \<and> Buttons (inputstate s) = 0 \<longrightarrow>
        particles (update pf e s) =
          particles (updateParticles e (hapticCheck pf e s)) @
            [chimneyParticle (spawnVelocity e) (spawnRotation e)] \<and>
        length (particles (update pf e s)) = length (particles s) + 1 \<and>
        co2Count (update pf e s) = co2Count (updateParticles e (hapticCheck pf e s)) + 1 \<and>
        timer (update pf e s) = clockSpawn e \<and>
        lose (update pf e s) \<and> \<not> win (update pf e s))"
proof (intro impI conjI; (elim conjE)?)
  assume cps: "0 < CLOCKS_PER_SEC pf" and nw: "\<not> win s"
    and el: "CLOCKS_PER_SEC pf \<le> clockSpawn e - timer s"
  show "spawn pf e s =
       s\<lparr>particles := particles s @ [chimneyParticle (spawnVelocity e) (spawnRotation e)],
         co2Count := co2Count s + 1, timer := clockSpawn e\<rparr>"
    using cps nw el by (simp add: spawn_cases)
  assume lo: "lose s" and nb: "Buttons (inputstate s) = 0"
  let ?l = "laserModels (updateParticles e (hapticCheck pf e s))"
  have u: "update pf e s = spawn pf e ?l" by (rule update_lost[OF cps nw lo nb])
  have l: "\<not> win ?l" "timer ?l = timer s" "lose ?l"
    using nw lo by (simp_all add: laserModels_fields updateParticles_fields hapticCheck_fields)
  have sp: "spawn pf e ?l =
     ?l\<lparr>particles := particles ?l @ [chimneyParticle (spawnVelocity e) (spawnRotation e)],
         co2Count := co2Count ?l + 1, timer := clockSpawn e\<rparr>"
    using cps l el by (simp add: spawn_cases)
  show "particles (update pf e s) =
          particles (updateParticles e (hapticCheck pf e s)) @
            [chimneyParticle (spawnVelocity e) (spawnRotation e)]"
    by (simp add: u sp laserModels_fields)
  show "length (particles (update pf e s)) = length (particles s) + 1"
    by (simp add: u sp laserModels_fields updateParticles_fields hapticCheck_fields)
  show "co2Count (update pf e s) = co2Count (updateParticles e (hapticCheck pf e s)) + 1"
    by (simp add: u sp laserModels_fields)
  show "timer (update pf e s) = clockSpawn e" by (simp add: u sp)
  show "lose (update pf e s)" using l by (simp add: u sp)
  show "\<not> win (update pf e s)" using l by (simp add: u sp)
qed

lemma update_beforeWinCase: "update pf e s = gameReset e (winCase (beforeWinCase pf e s))"
  by (simp add: update_def beforeWinCase_def)

lemma update_won:
  assumes w: "win s" and nl: "\<not> lose s" and c: "co2Count s = 0"
    and n: "co2Particles (particles s) = 0" and nb: "Buttons (inputstate s) = 0"
  shows "win (update pf e s)" "\<not> lose (update pf e s)" "co2Count (update pf e s) = 0"
    "co2Particles (particles (update pf e s)) = 0"
    "length (particles (update pf e s)) = length (particles s)"
    "clearColor (update pf e s) = Vec4 0 0.2 0.8 0"
proof -
  let ?h = "hapticCheck pf e s"
  let ?u = "updateParticles e ?h"
  let ?l = "laserModels ?u"
  have n': "co2Particles (particles ?u) = 0"
    using updateParticles_count(2)[of e ?h] n by (simp add: hapticCheck_fields)
  have cu: "co2Count ?u = 0"
    using updateParticles_count(1)[of e ?h] n n' c by (simp add: hapticCheck_fields)
  have l: "win ?l" "\<not> lose ?l" "co2Count ?l = 0" "co2Particles (particles ?l) = 0"
    "Buttons (inputstate ?l) = 0" "length (particles ?l) = length (particles s)"
    using w nl nb n' cu by (simp_all add: laserModels_fields updateParticles_fields hapticCheck_fields)
  have sp: "spawn pf e ?l = ?l" using l(1) by (simp add: spawn_def)
  have lo: "lossCase e ?l = ?l" using l(3) by (simp add: lossCase_def)
  have u: "update pf e s = ?l\<lparr>clearColor := Vec4 0 0.2 0.8 0, win := True\<rparr>"
    using l by (simp add: update_def sp lo winCase_def gameReset_def)
  show "win (update pf e s)" "\<not> lose (update pf e s)" "co2Count (update pf e s) = 0"
    "co2Particles (particles (update pf e s)) = 0"
    "length (particles (update pf e s)) = length (particles s)"
    "clearColor (update pf e s) = Vec4 0 0.2 0.8 0"
    using l by (simp_all add: u)
qed

text \<open>
  Claim C4. When the win check of a step finds \<open>co2Count = 0\<close> and \<open>lose\<close> false it
  sets \<open>win\<close> (and the clear colour), and otherwise changes nothing; a whole step in
  which the counter is 0 and the game not lost at that check, with no button pressed, ends
  won. Once won the state stays won: the check is idempotent, and a step from a won state
  (counter 0, no \<open>co2\<close> particle, no button) leaves \<open>win\<close>, \<open>lose\<close>, the counter,
  the particles' number and the clear colour as they were, so there is no second
  transition.
\<close>

theorem win_transition:
  "(co2Count s = 0 \<and> \<not> lose s \<longrightarrow>
      winCase s = s\<lparr>clearColor := Vec4 0 0.2 0.8 0, win := True\<rparr> \<and> win (winCase s)) \<and>
   (co2Count s \<noteq> 0 \<or> lose s \<longrightarrow> winCase s = s) \<and>
   winCase (winCase s) = winCase s \<and>
   (co2Count (beforeWinCase pf e s) = 0 \<and> \<not> lose (beforeWinCase pf e s) \<and>
    Buttons (inputstate s) = 0 \<longrightarrow> win (update pf e s)) \<and>
   (win s \<and> \<not> lose s \<and> co2Count s = 0 \<and> co2Particles (particles s) = 0 \<and>
    Buttons (inputstate s) = 0 \<longrightarrow>
      win (update pf e s) \<and> \<not> lose (update pf e s) \<and> co2Count (update pf e s) = 0 \<and>
      co2Particles (particles (update pf e s)) = 0 \<and>
      length (particles (update pf e s)) = length (particles s) \<and>
      clearColor (update pf e s) = Vec4 0 0.2 0.8 0)"
proof -
  have a: "co2Count s = 0 \<and> \<not> lose s \<longrightarrow>
      winCase s = s\<lparr>clearColor := Vec4 0 0.2 0.8 0, win := True\<rparr> \<and> win (winCase s)"
    by (simp add: winCase_def)
  have b: "co2Count s \<noteq> 0 \<or> lose s \<longrightarrow> winCase s = s"
    by (auto simp: winCase_def)
  have c: "winCase (winCase s) = winCase s"
    by (simp add: winCase_def)
  have i: "Buttons (inputstate (beforeWinCase pf e s)) = Buttons (inputstate s)"
    by (simp add: beforeWinCase_def lossCase_def spawn_def Let_def laserModels_fields
        updateParticles_fields hapticCheck_fields)
  have d: "co2Count (beforeWinCase pf e s) = 0 \<and> \<not> lose (beforeWinCase pf e s) \<and>
    Buttons (inputstate s) = 0 \<longrightarrow> win (update pf e s)"
    using i by (simp add: update_beforeWinCase winCase_def gameReset_def)
  from a b c d update_won[of s pf e] show ?thesis by blast
qed

lemma demo_platform_cps: "CLOCKS_PER_SEC demo_platform = 1000"
  by (simp add: demo_platform_def)

lemma demo_env_fields:
  "clockCheck (demo_env n i) = n" "clockSpawn (demo_env n i) = n" "clockHit (demo_env n i) k = n"
  by (simp_all add: demo_env_def)

lemma demo_playing_fields:
  "particles (demo_playing ps n) = ps" "co2Count (demo_playing ps n) = n"
  "\<not> win (demo_playing ps n)" "\<not> lose (demo_playing ps n)" "timer (demo_playing ps n) = 0"
  "vibTimer (demo_playing ps n) = 0" "vibration (demo_playing ps n) = []"
  "fingerTriggerPressed (demo_playing ps n) k" "Buttons (inputstate (demo_playing ps n)) = 0"
  "leftLaser (demo_playing ps n) = demo_laser redLaser" "rightLaser (demo_playing ps n) = demo_laser redLaser"
  by (simp_all add: demo_playing_def demo_scene_def ColorCubeScene_ctor_def demo_pressed_def)

lemma demo_laser_fields: "model (demo_laser m) = m" "transform (demo_laser m) = laserTransform demo_hand"
  by (simp_all add: demo_laser_def defaultParticle_def)

lemma beforeWinCase_quiet:
  assumes cps: "0 < CLOCKS_PER_SEC pf" and n: "co2Particles (particles s) = 0"
    and el: "clockSpawn e - timer s < CLOCKS_PER_SEC pf" and c: "co2Count s \<le> 10"
  shows "co2Count (beforeWinCase pf e s) = co2Count s" "lose (beforeWinCase pf e s) = lose s"
proof -
  let ?h = "hapticCheck pf e s"
  let ?u = "updateParticles e ?h"
  let ?l = "laserModels ?u"
  have n': "co2Particles (particles ?u) = 0"
    using updateParticles_count(2)[of e ?h] n by (simp add: hapticCheck_fields)
  have cu: "co2Count ?u = co2Count s"
    using updateParticles_count(1)[of e ?h] n n' by (simp add: hapticCheck_fields)
  have l: "co2Count ?l = co2Count s" "timer ?l = timer s" "lose ?l = lose s"
    using cu by (simp_all add: laserModels_fields updateParticles_fields hapticCheck_fields)
  have sp: "spawn pf e ?l = ?l" using cps el l(2) by (simp add: spawn_cases)
  have lo: "lossCase e ?l = ?l" using c l(1) by (simp add: lossCase_def)
  show "co2Count (beforeWinCase pf e s) = co2Count s" "lose (beforeWinCase pf e s) = lose s"
    using l by (simp_all add: beforeWinCase_def sp lo)
qed

theorem win_transition_witness:
  "win demo_won \<and> \<not> lose demo_won \<and> co2Count demo_won = 0 \<and>
   co2Particles (particles demo_won) = 0 \<and> Buttons (inputstate demo_won) = 0 \<and>
   win (update demo_platform (demo_env 10 demo_pressed) demo_won) \<and>
   co2Count (update demo_platform (demo_env 10 demo_pressed) demo_won) = 0 \<and>
   clearColor (update demo_platform (demo_env 10 demo_pressed) demo_won) = clearColor demo_won \<and>
   co2Count (demo_playing [demo_converted] 0) = 0 \<and>
   \<not> lose (demo_playing [demo_converted] 0) \<and>
   \<not> win (demo_playing [demo_converted] 0) \<and>
   win (winCase (demo_playing [demo_converted] 0)) \<and>
   win (update demo_platform (demo_env 10 demo_pressed) (demo_playing [demo_converted] 0)) \<and>
   co2Count demo_scene \<noteq> 0 \<and> winCase demo_scene = demo_scene \<and>
   winCase demo_won = demo_won"
proof -
  have f: "win demo_won" "\<not> lose demo_won" "co2Count demo_won = 0"
    "co2Particles (particles demo_won) = 0" "Buttons (inputstate demo_won) = 0"
    "clearColor demo_won = Vec4 0 0.2 0.8 0"
    by (simp_all add: demo_won_def demo_playing_def demo_scene_def ColorCubeScene_ctor_def
        demo_pressed_def co2Particles_def demo_particle_def demo_converted_def)
  have g: "co2Count (demo_playing [demo_converted] 0) = 0"
    "\<not> lose (demo_playing [demo_converted] 0)"
    "\<not> win (demo_playing [demo_converted] 0)"
    by (simp_all add: demo_playing_def demo_scene_def ColorCubeScene_ctor_def)
  have k: "demo_won = winCase (demo_playing [demo_converted] 0)"
    using g by (simp add: demo_won_def winCase_def)
  note T1 = win_transition[of demo_won demo_platform "demo_env 10 demo_pressed"]
  note T2 = win_transition[of "demo_playing [demo_converted] 0" demo_platform "demo_env 10 demo_pressed"]
  have w1: "win (update demo_platform (demo_env 10 demo_pressed) demo_won)"
    "co2Count (update demo_platform (demo_env 10 demo_pressed) demo_won) = 0"
    "clearColor (update demo_platform (demo_env 10 demo_pressed) demo_won) = clearColor demo_won"
    using T1 f by simp_all
  have w2: "win (winCase (demo_playing [demo_converted] 0))"
    using T2 g by blast
  have w3: "winCase demo_won = demo_won"
    using T2 k by simp
  have q: "co2Count (beforeWinCase demo_platform (demo_env 10 demo_pressed) (demo_playing [demo_converted] 0)) = 0"
    "\<not> lose (beforeWinCase demo_platform (demo_env 10 demo_pressed) (demo_playing [demo_converted] 0))"
    "Buttons (inputstate (demo_playing [demo_converted] 0)) = 0"
    using beforeWinCase_quiet[of demo_platform "demo_playing [demo_converted] 0" "demo_env 10 demo_pressed"]
    by (simp_all add: demo_platform_cps demo_env_fields demo_playing_fields co2Particles_def
        demo_converted_def demo_particle_def)
  have w4: "win (update demo_platform (demo_env 10 demo_pressed) (demo_playing [demo_converted] 0))"
    using T2 q by blast
  have d: "co2Count demo_scene \<noteq> 0" by (simp add: demo_scene_def ColorCubeScene_ctor_def)
  have w5: "winCase demo_scene = demo_scene"
    using win_transition[of demo_scene demo_platform "demo_env 10 demo_pressed"] d by blast
  from f g w1 w2 w3 w4 d w5 show ?thesis by blast
qed

lemma after_loop_vibration:
  "vibration (gameReset e s) = vibration s"
  "vibration (winCase s) = vibration s"
  "vibration (lossCase e s) = vibration s"
  "vibration (spawn pf e s) = vibration s"
  by (simp_all add: gameReset_def winCase_def lossCase_def spawn_def Let_def)

lemma update_vibration:
  "vibration (update pf e s) =
     vibration s @ (if hapticStop pf e s then vibOff else []) @
     concat (replicate (conversions e (hapticCheck pf e s)) vibOn)"
proof -
  have "vibration (update pf e s) = vibration (updateParticles e (hapticCheck pf e s))"
    by (simp add: update_def after_loop_vibration laserModels_fields)
  also have "\<dots> = vibration (hapticCheck pf e s) @
      concat (replicate (conversions e (hapticCheck pf e s)) vibOn)"
    by (simp add: updateParticles_count(3) conversions_def)
  finally show ?thesis by (simp add: hapticCheck_cases)
qed

lemma hapticStop_ticks:
  "0 < CLOCKS_PER_SEC pf \<Longrightarrow>
   hapticStop pf e s =
     (\<not> fingerTriggerPressed s LEFT \<or> \<not> fingerTriggerPressed s RIGHT \<or>
      CLOCKS_PER_SEC pf < 10 * (clockCheck e - vibTimer s))"
proof -
  assume c: "0 < CLOCKS_PER_SEC pf"
  have "(100 < 1000 * real_of_int (clockCheck e - vibTimer s) / real_of_int (CLOCKS_PER_SEC pf)) =
        (100 * real_of_int (CLOCKS_PER_SEC pf) < 1000 * real_of_int (clockCheck e - vibTimer s))"
    using c by (simp add: pos_less_divide_eq)
  also have "\<dots> = (real_of_int (CLOCKS_PER_SEC pf) < real_of_int (10 * (clockCheck e - vibTimer s)))"
    by auto
  also have "\<dots> = (CLOCKS_PER_SEC pf < 10 * (clockCheck e - vibTimer s))"
    by (rule of_int_less_iff)
  finally show ?thesis by (simp add: hapticStop_def)
qed

text \<open>
  Claim C8, as amended. At its start every step sends amplitude 0 to both controllers
  exactly when a trigger latch is not set or the clock is more than a tenth of a second
  past \<open>vibTimer\<close>, the time of the last hit; these stop commands are sent again in
  every step in which that holds. Amplitude 1 is sent only in a step that converts a
  particle, once to each controller for each conversion and after the stop commands; no
  other haptic command is sent in a step.
\<close>

theorem haptic_policy:
  "vibration (hapticCheck pf e s) = vibration s @ (if hapticStop pf e s then vibOff else []) \<and>
   vibration (update pf e s) =
     vibration s @ (if hapticStop pf e s then vibOff else []) @
     concat (replicate (conversions e (hapticCheck pf e s)) vibOn) \<and>
   (0 < CLOCKS_PER_SEC pf \<longrightarrow>
      hapticStop pf e s =
        (\<not> fingerTriggerPressed s LEFT \<or> \<not> fingerTriggerPressed s RIGHT \<or>
         CLOCKS_PER_SEC pf < 10 * (clockCheck e - vibTimer s)))"
  using update_vibration[of pf e s] hapticStop_ticks[of pf e s]
  by (simp add: hapticCheck_cases)

lemma rayHit_demo_iff: "rayHit (laserTransform demo_hand) (Vec3 x (-1) z) = (\<bar>x\<bar> \<le> 0.3)"
proof -
  have a: "sqrt 400 = 20" using real_sqrt_abs[of 20] by simp
  have b: "sqrt (400 * (x * x)) = 20 * \<bar>x\<bar>"
    using real_sqrt_abs[of "20 * x"] by (simp add: power2_eq_square abs_mult algebra_simps)
  have "rayHit (laserTransform demo_hand) (Vec3 x (-1) z) = (10 * \<bar>x\<bar> \<le> 3)"
    by (simp add: rayHit_def laserTransform_def demo_hand_def glm_scale_def glm_translate_def
      mat4_mul_def mat4_mul_vec4_def glm_mat4_cast_def mat4_identity_def vec4_add_def vec4_scale_def
      vec3_of_vec4_def vec3_sub_def glm_cross_def glm_length_def glm_dot_def Let_def a b)
  then show ?thesis by (simp add: mult.commute)
qed

lemma demo_after_hit_loop:
  "co2Particles (particles (updateParticles (demo_env 60 demo_pressed) demo_after_hit)) = 1"
proof -
  have c: "vec3_of_vec4 (col3 (transform (advance demo_far))) = Vec3 (501 / 100) (-1) (-15)"
    by (simp add: advance_fields demo_far_def demo_particle_def vec4_add_def vec3_of_vec4_def)
  have m: "model (advance demo_far) = co2" "model (advance demo_converted) = o2"
    by (simp_all add: advance_fields demo_far_def demo_converted_def demo_particle_def)
  have n: "\<not> rayHit (laserTransform demo_hand) (Vec3 (501 / 100) (-1) (-15))"
    by (simp only: rayHit_demo_iff)
  have s1: "particleStep (demo_env 60 demo_pressed) 0 demo_converted demo_after_hit =
      (advance demo_converted, demo_after_hit)"
    by (simp add: particleStep_def convert_cases m)
  have s2: "particleStep (demo_env 60 demo_pressed) (Suc 0) demo_far demo_after_hit =
      (advance demo_far, demo_after_hit)"
    using n by (simp add: particleStep_def convert_cases m c demo_after_hit_def demo_playing_fields
        demo_laser_fields)
  have "particleLoop (demo_env 60 demo_pressed) 0 (particles demo_after_hit) demo_after_hit =
      ([advance demo_converted, advance demo_far], demo_after_hit)"
    by (simp add: demo_after_hit_def demo_playing_fields s1[unfolded demo_after_hit_def]
        s2[unfolded demo_after_hit_def])
  then show ?thesis
    by (simp add: updateParticles_def co2Particles_def m)
qed

text \<open>
  Against claim C8 as stated: 10 ms after a hit, with both triggers held and no
  particle converted, a step sends no command to the controllers, so the feedback the hit
  started is not asserted again in that frame.
\<close>

theorem haptic_reassert_counterexample:
  "fingerTriggerPressed demo_after_hit LEFT \<and> fingerTriggerPressed demo_after_hit RIGHT \<and>
   vibration demo_after_hit = vibOn \<and>
   10 * (clockCheck (demo_env 60 demo_pressed) - vibTimer demo_after_hit) = 100 \<and>
   CLOCKS_PER_SEC demo_platform = 1000 \<and>
   vibration (update demo_platform (demo_env 60 demo_pressed) demo_after_hit) = vibration demo_after_hit"
proof -
  have f: "fingerTriggerPressed demo_after_hit LEFT" "fingerTriggerPressed demo_after_hit RIGHT"
    "vibration demo_after_hit = vibOn" "vibTimer demo_after_hit = 50"
    "co2Particles (particles demo_after_hit) = 1"
    by (simp_all add: demo_after_hit_def demo_playing_fields co2Particles_def demo_particle_def
        demo_far_def demo_converted_def)
  have h: "\<not> hapticStop demo_platform (demo_env 60 demo_pressed) demo_after_hit"
    using f by (simp add: hapticStop_ticks demo_platform_cps demo_env_fields)
  have hc: "hapticCheck demo_platform (demo_env 60 demo_pressed) demo_after_hit = demo_after_hit"
    using h by (simp add: hapticCheck_cases)
  have c: "conversions (demo_env 60 demo_pressed) demo_after_hit = 0"
    by (simp add: conversions_def demo_after_hit_loop f)
  have "vibration (update demo_platform (demo_env 60 demo_pressed) demo_after_hit) = vibration demo_after_hit"
    using h by (simp add: update_vibration hc c)
  with f show ?thesis by (simp add: demo_platform_cps demo_env_fields)
qed

theorem haptic_policy_witness:
  "0 < CLOCKS_PER_SEC demo_platform \<and>
   hapticStop demo_platform (demo_env 151 demo_pressed) demo_after_hit \<and>
   vibration (hapticCheck demo_platform (demo_env 151 demo_pressed) demo_after_hit) = vibOn @ vibOff \<and>
   \<not> hapticStop demo_platform (demo_env 150 demo_pressed) demo_after_hit \<and>
   vibration (hapticCheck demo_platform (demo_env 150 demo_pressed) demo_after_hit) = vibOn \<and>
   vibration (hapticCheck demo_platform (demo_env 60 demo_released) demo_scene) = vibOff"
proof -
  have f: "fingerTriggerPressed demo_after_hit LEFT" "fingerTriggerPressed demo_after_hit RIGHT"
    "vibration demo_after_hit = vibOn" "vibTimer demo_after_hit = 50"
    by (simp_all add: demo_after_hit_def demo_playing_fields)
  have g: "\<not> fingerTriggerPressed demo_scene LEFT" "vibration demo_scene = []"
    by (simp_all add: demo_scene_def ColorCubeScene_ctor_def)
  have c: "0 < CLOCKS_PER_SEC demo_platform" by (simp add: demo_platform_cps)
  note T1 = haptic_policy[of demo_platform "demo_env 151 demo_pressed" demo_after_hit]
  note T2 = haptic_policy[of demo_platform "demo_env 150 demo_pressed" demo_after_hit]
  note T3 = haptic_policy[of demo_platform "demo_env 60 demo_released" demo_scene]
  have h1: "hapticStop demo_platform (demo_env 151 demo_pressed) demo_after_hit"
    using T1 c f by (simp add: demo_platform_cps demo_env_fields)
  have h2: "\<not> hapticStop demo_platform (demo_env 150 demo_pressed) demo_after_hit"
    using T2 c f by (simp add: demo_platform_cps demo_env_fields)
  have h3: "hapticStop demo_platform (demo_env 60 demo_released) demo_scene"
    using T3 c g by simp
  have v1: "vibration (hapticCheck demo_platform (demo_env 151 demo_pressed) demo_after_hit) = vibOn @ vibOff"
    using T1 h1 f by simp
  have v2: "vibration (hapticCheck demo_platform (demo_env 150 demo_pressed) demo_after_hit) = vibOn"
    using T2 h2 f by simp
  have v3: "vibration (hapticCheck demo_platform (demo_env 60 demo_released) demo_scene) = vibOff"
    using T3 h3 g by simp
  from c h1 h2 v1 v2 v3 show ?thesis by blast
qed

lemma update_not_lost:
  assumes nl: "\<not> lose s" and c: "co2Count s \<le> 9"
  shows "\<not> lose (update pf e s)"
proof -
  let ?h = "hapticCheck pf e s"
  let ?u = "updateParticles e ?h"
  let ?l = "laserModels ?u"
  have "co2Count ?u \<le> co2Count ?h"
    using updateParticles_count(1)[of e ?h] updateParticles_count(2)[of e ?h] by linarith
  then have l: "co2Count ?l \<le> 9" "\<not> lose ?l"
    using c nl by (simp_all add: laserModels_fields updateParticles_fields hapticCheck_fields)
  have sp: "co2Count (spawn pf e ?l) \<le> 10" "\<not> lose (spawn pf e ?l)"
    using l by (simp_all add: spawn_def Let_def)
  have lo: "\<not> lose (lossCase e (spawn pf e ?l))" using sp by (simp add: lossCase_def)
  then show ?thesis by (simp add: update_def winCase_def gameReset_def)
qed

theorem counter_invariant_witness:
  "\<not> lose (run_scene demo_platform demo_scene [demo_env 10 demo_pressed]) \<and>
   co2Count (run_scene demo_platform demo_scene [demo_env 10 demo_pressed]) =
     int (co2Particles (particles (run_scene demo_platform demo_scene [demo_env 10 demo_pressed]))) \<and>
   co2Count (demo_playing (replicate 11 demo_far) 11) > 10 \<and>
   \<not> lose (demo_playing (replicate 11 demo_far) 11) \<and>
   co2Count (lossCase (demo_env 10 demo_pressed) (demo_playing (replicate 11 demo_far) 11)) = 11 \<and>
   co2Particles (particles (lossCase (demo_env 10 demo_pressed)
      (demo_playing (replicate 11 demo_far) 11))) = 111"
proof -
  let ?s = "demo_playing (replicate 11 demo_far) 11"
  let ?e = "demo_env 10 demo_pressed"
  note T = counter_invariant[of demo_platform "\<lambda>_. Vec3 0 0 (-0.01)" "\<lambda>_. Vec3 0 0 1" 0 0
      "\<lambda>_. demo_hand" demo_released "Vec4 0 0 0.4 0" "[?e]" ?s ?e, folded demo_scene_def]
  have "\<not> lose (getControllerData ?e demo_scene)" "co2Count (getControllerData ?e demo_scene) \<le> 9"
    by (simp_all add: getControllerData_def Let_def demo_scene_def ColorCubeScene_ctor_def)
  then have nl: "\<not> lose (run_scene demo_platform demo_scene [?e])"
    by (simp add: render_def Let_def update_not_lost)
  have g: "co2Count ?s > 10" "\<not> lose ?s" "co2Particles (particles ?s) = 11" "co2Count ?s = 11"
    by (simp_all add: demo_playing_fields co2Particles_def demo_particle_def demo_far_def)
  from T nl g show ?thesis by simp
qed

theorem spawn_ignores_lose_witness:
  "0 < CLOCKS_PER_SEC demo_platform \<and> \<not> win demo_lost \<and> lose demo_lost \<and>
   CLOCKS_PER_SEC demo_platform \<le> clockSpawn (demo_env 1000 demo_pressed) - timer demo_lost \<and>
   Buttons (inputstate demo_lost) = 0 \<and> length (particles demo_lost) = 1 \<and>
   length (particles (update demo_platform (demo_env 1000 demo_pressed) demo_lost)) = 2 \<and>
   lose (update demo_platform (demo_env 1000 demo_pressed) demo_lost)"
proof -
  have f: "0 < CLOCKS_PER_SEC demo_platform" "\<not> win demo_lost" "lose demo_lost"
    "CLOCKS_PER_SEC demo_platform \<le> clockSpawn (demo_env 1000 demo_pressed) - timer demo_lost"
    "Buttons (inputstate demo_lost) = 0" "length (particles demo_lost) = 1"
    by (simp_all add: demo_lost_def demo_playing_fields demo_platform_cps demo_env_fields)
  from spawn_ignores_lose[of demo_platform demo_lost "demo_env 1000 demo_pressed"] f
  have "length (particles (update demo_platform (demo_env 1000 demo_pressed) demo_lost)) =
          length (particles demo_lost) + 1"
    "lose (update demo_platform (demo_env 1000 demo_pressed) demo_lost)"
    by blast+
  with f show ?thesis by simp
qed

section \<open>Properties of the frame loop\<close>

lemma for_each_eye_unroll: "for_each_eye f s = f ovrEye_Right (f ovrEye_Left s)"
  unfolding for_each_eye_def
  apply (subst for_each_eye_from.simps)
  apply (subst for_each_eye_from.simps)
  apply (subst for_each_eye_from.simps)
  apply (simp add: ovrEye_Left_def ovrEye_Right_def ovrEye_Count_def)
  done

lemma sceneRenders_append: "sceneRenders (xs @ ys) = sceneRenders xs @ sceneRenders ys"
  by (induction xs rule: sceneRenders.induct) simp_all

lemma submittedLayers_append: "submittedLayers (xs @ ys) = submittedLayers xs @ submittedLayers ys"
  by (induction xs rule: submittedLayers.induct) simp_all

lemma viewportCalls_append: "viewportCalls (xs @ ys) = viewportCalls xs @ viewportCalls ys"
  by (induction xs rule: viewportCalls.induct) simp_all

lemma stderrLines_append: "stderrLines (xs @ ys) = stderrLines xs @ stderrLines ys"
  by (induction xs rule: stderrLines.induct) simp_all

lemmas observe_append = sceneRenders_append submittedLayers_append viewportCalls_append stderrLines_append

lemma draw_events:
  "snd (draw pf inp a) =
     [GetEyePoses (frame a), BindDrawFramebuffer, AttachColorTexture, ClearBuffers,
      glViewport (pos_x (Pos (Viewport (sceneLayer a) 0))) (pos_y (Pos (Viewport (sceneLayer a) 0)))
                 (size_w (Size (Viewport (sceneLayer a) 0))) (size_h (Size (Viewport (sceneLayer a) 0))),
      SceneRender (eyeProjections a 0) (glm_inverse pf (toGlm_pose (eyePoses inp 0))) (eyeMidpoint inp),
      glViewport (pos_x (Pos (Viewport (sceneLayer a) 1))) (pos_y (Pos (Viewport (sceneLayer a) 1)))
                 (size_w (Size (Viewport (sceneLayer a) 1))) (size_h (Size (Viewport (sceneLayer a) 1))),
      SceneRender (eyeProjections a 1) (glm_inverse pf (toGlm_pose (eyePoses inp 1))) (eyeMidpoint inp),
      DetachColorTexture, UnbindDrawFramebuffer, CommitTextureSwapChain,
      SubmitFrame (frame a)
        ((sceneLayer a)\<lparr>RenderPose := (RenderPose (sceneLayer a))(0 := eyePoses inp 0, 1 := eyePoses inp 1)\<rparr>),
      MirrorBlit (mirrorSize a)]"
  by (simp add: draw_def for_each_eye_unroll drawEye_def renderScene_def Let_def split_def
      ovrEye_Left_def ovrEye_Right_def eyeMidpoint_def)

lemma draw_state:
  "fst (draw pf inp a) =
     a\<lparr>sceneLayer := (sceneLayer a)\<lparr>RenderPose :=
           (RenderPose (sceneLayer a))(0 := eyePoses inp 0, 1 := eyePoses inp 1)\<rparr>,
       cubeScene := render pf (sceneEnv inp 1) (render pf (sceneEnv inp 0) (cubeScene a))\<rparr>"
  by (simp add: draw_def for_each_eye_unroll drawEye_def renderScene_def Let_def split_def
      ovrEye_Left_def ovrEye_Right_def)

lemma fold_onKey:
  "fold (\<lambda>(k, act). onKey k act) ks (a, evs) = (a', evs') \<Longrightarrow>
     frame a' = frame a \<and> eyeProjections a' = eyeProjections a \<and> sceneLayer a' = sceneLayer a \<and>
     mirrorSize a' = mirrorSize a \<and> renderTargetSize a' = renderTargetSize a \<and>
     cubeScene a' = cubeScene a \<and>
     (\<exists>n. evs' = evs @ replicate n RecenterTrackingOrigin)"
proof (induction ks arbitrary: a evs)
  case Nil
  then show ?case by simp
next
  case (Cons k ks)
  obtain key act where k: "k = (key, act)" by (cases k)
  obtain a1 evs1 where o: "onKey key act (a, evs) = (a1, evs1)" by (cases "onKey key act (a, evs)")
  have f: "frame a1 = frame a \<and> eyeProjections a1 = eyeProjections a \<and> sceneLayer a1 = sceneLayer a \<and>
     mirrorSize a1 = mirrorSize a \<and> renderTargetSize a1 = renderTargetSize a \<and> cubeScene a1 = cubeScene a \<and>
     (evs1 = evs \<or> evs1 = evs @ [RecenterTrackingOrigin])"
    using o by (auto simp: onKey_def split: if_splits)
  from Cons.prems k o have "fold (\<lambda>(k, act). onKey k act) ks (a1, evs1) = (a', evs')" by simp
  from Cons.IH[OF this] obtain n where
    g: "frame a' = frame a1" "eyeProjections a' = eyeProjections a1" "sceneLayer a' = sceneLayer a1"
      "mirrorSize a' = mirrorSize a1" "renderTargetSize a' = renderTargetSize a1" "cubeScene a' = cubeScene a1"
      "evs' = evs1 @ replicate n RecenterTrackingOrigin"
    by blast
  from f have "\<exists>m. evs' = evs @ replicate m RecenterTrackingOrigin"
  proof (elim conjE disjE)
    assume "evs1 = evs"
    with g(7) show ?thesis by blast
  next
    assume "evs1 = evs @ [RecenterTrackingOrigin]"
    with g(7) have "evs' = evs @ replicate (Suc n) RecenterTrackingOrigin" by simp
    then show ?thesis by blast
  qed
  with f g show ?case by simp
qed

lemma pollEvents_fields:
  "frame (fst (pollEvents inp a)) = frame a"
  "eyeProjections (fst (pollEvents inp a)) = eyeProjections a"
  "sceneLayer (fst (pollEvents inp a)) = sceneLayer a"
  "mirrorSize (fst (pollEvents inp a)) = mirrorSize a"
  "cubeScene (fst (pollEvents inp a)) = cubeScene a"
  "\<exists>n. snd (pollEvents inp a) = replicate n RecenterTrackingOrigin"
proof -
  obtain a1 evs1 where f: "fold (\<lambda>(k, act). onKey k act) (keyEvents inp) (a, []) = (a1, evs1)"
    by (cases "fold (\<lambda>(k, act). onKey k act) (keyEvents inp) (a, [])")
  from fold_onKey[OF f] f
  show "frame (fst (pollEvents inp a)) = frame a"
    "eyeProjections (fst (pollEvents inp a)) = eyeProjections a"
    "sceneLayer (fst (pollEvents inp a)) = sceneLayer a"
    "mirrorSize (fst (pollEvents inp a)) = mirrorSize a"
    "cubeScene (fst (pollEvents inp a)) = cubeScene a"
    "\<exists>n. snd (pollEvents inp a) = replicate n RecenterTrackingOrigin"
    by (auto simp: pollEvents_def)
qed

lemma observe_replicate:
  "sceneRenders (replicate n RecenterTrackingOrigin) = []"
  "submittedLayers (replicate n RecenterTrackingOrigin) = []"
  "viewportCalls (replicate n RecenterTrackingOrigin) = []"
  "stderrLines (replicate n RecenterTrackingOrigin) = []"
  by (induction n) simp_all

lemma tick_events:
  "snd (tick pf inp a) = snd (pollEvents inp (a\<lparr>frame := frame a + 1\<rparr>)) @
     snd (draw pf inp (fst (pollEvents inp (a\<lparr>frame := frame a + 1\<rparr>)))) @ [SwapBuffers]"
  "fst (tick pf inp a) = fst (draw pf inp (fst (pollEvents inp (a\<lparr>frame := frame a + 1\<rparr>))))"
  by (simp_all add: tick_def split_def)

lemma tick_observe:
  "sceneRenders (snd (tick pf inp a)) =
     [(eyeProjections a 0, glm_inverse pf (toGlm_pose (eyePoses inp 0))),
      (eyeProjections a 1, glm_inverse pf (toGlm_pose (eyePoses inp 1)))]"
  "submittedLayers (snd (tick pf inp a)) =
     [(sceneLayer a)\<lparr>RenderPose := (RenderPose (sceneLayer a))(0 := eyePoses inp 0, 1 := eyePoses inp 1)\<rparr>]"
  "viewportCalls (snd (tick pf inp a)) =
     [viewportArgs (Viewport (sceneLayer a) 0), viewportArgs (Viewport (sceneLayer a) 1)]"
  "stderrLines (snd (tick pf inp a)) = []"
proof -
  obtain n where n: "snd (pollEvents inp (a\<lparr>frame := frame a + 1\<rparr>)) = replicate n RecenterTrackingOrigin"
    using pollEvents_fields(6) by blast
  show "sceneRenders (snd (tick pf inp a)) =
     [(eyeProjections a 0, glm_inverse pf (toGlm_pose (eyePoses inp 0))),
      (eyeProjections a 1, glm_inverse pf (toGlm_pose (eyePoses inp 1)))]"
    "submittedLayers (snd (tick pf inp a)) =
     [(sceneLayer a)\<lparr>RenderPose := (RenderPose (sceneLayer a))(0 := eyePoses inp 0, 1 := eyePoses inp 1)\<rparr>]"
    "viewportCalls (snd (tick pf inp a)) =
     [viewportArgs (Viewport (sceneLayer a) 0), viewportArgs (Viewport (sceneLayer a) 1)]"
    "stderrLines (snd (tick pf inp a)) = []"
    by (simp_all add: tick_events n observe_append observe_replicate draw_events pollEvents_fields
        viewportArgs_def)
qed

lemma tick_preserves:
  "eyeProjections (fst (tick pf inp a)) = eyeProjections a"
  "Viewport (sceneLayer (fst (tick pf inp a))) = Viewport (sceneLayer a)"
  by (simp_all add: tick_events draw_state pollEvents_fields)

lemma run_loop_frames:
  "run_loop pf a inps = (a', frames) \<Longrightarrow> i < length frames \<Longrightarrow>
     i < length inps \<and>
     sceneRenders (frames ! i) =
       [(eyeProjections a 0, glm_inverse pf (toGlm_pose (eyePoses (inps ! i) 0))),
        (eyeProjections a 1, glm_inverse pf (toGlm_pose (eyePoses (inps ! i) 1)))] \<and>
     map (\<lambda>l. (RenderPose l 0, RenderPose l 1)) (submittedLayers (frames ! i)) =
       [(eyePoses (inps ! i) 0, eyePoses (inps ! i) 1)] \<and>
     viewportCalls (frames ! i) =
       [viewportArgs (Viewport (sceneLayer a) 0), viewportArgs (Viewport (sceneLayer a) 1)] \<and>
     stderrLines (frames ! i) = []"
proof (induction inps arbitrary: a a' frames i)
  case Nil
  then show ?case by simp
next
  case (Cons inp inps)
  show ?case
  proof (cases "shouldClose a")
    case True
    with Cons.prems show ?thesis by simp
  next
    case False
    obtain a1 evs where t: "tick pf inp a = (a1, evs)" by (cases "tick pf inp a")
    obtain a2 rest where r: "run_loop pf a1 inps = (a2, rest)" by (cases "run_loop pf a1 inps")
    from Cons.prems(1) False t r have fr: "frames = evs # rest" by simp
    from t have e: "evs = snd (tick pf inp a)" "a1 = fst (tick pf inp a)" by simp_all
    show ?thesis
    proof (cases i)
      case 0
      have "sceneRenders evs =
           [(eyeProjections a 0, glm_inverse pf (toGlm_pose (eyePoses inp 0))),
            (eyeProjections a 1, glm_inverse pf (toGlm_pose (eyePoses inp 1)))]"
        "map (\<lambda>l. (RenderPose l 0, RenderPose l 1)) (submittedLayers evs) =
           [(eyePoses inp 0, eyePoses inp 1)]"
        "viewportCalls evs =
           [viewportArgs (Viewport (sceneLayer a) 0), viewportArgs (Viewport (sceneLayer a) 1)]"
        "stderrLines evs = []"
        unfolding e by (simp_all only: tick_observe, simp_all)
      with 0 fr show ?thesis by simp
    next
      case (Suc j)
      with fr Cons.prems(2) have j: "j < length rest" by simp
      have p: "eyeProjections a1 = eyeProjections a" "Viewport (sceneLayer a1) = Viewport (sceneLayer a)"
        unfolding e by (rule tick_preserves)+
      from Cons.IH[OF r j] have
        "j < length inps \<and>
         sceneRenders (rest ! j) =
           [(eyeProjections a 0, glm_inverse pf (toGlm_pose (eyePoses (inps ! j) 0))),
            (eyeProjections a 1, glm_inverse pf (toGlm_pose (eyePoses (inps ! j) 1)))] \<and>
         map (\<lambda>l. (RenderPose l 0, RenderPose l 1)) (submittedLayers (rest ! j)) =
           [(eyePoses (inps ! j) 0, eyePoses (inps ! j) 1)] \<and>
         viewportCalls (rest ! j) =
           [viewportArgs (Viewport (sceneLayer a) 0), viewportArgs (Viewport (sceneLayer a) 1)] \<and>
         stderrLines (rest ! j) = []"
        by (simp only: p)
      with Suc fr show ?thesis by simp
    qed
  qed
qed

lemma tick_shouldClose:
  "keyEvents inp = [] \<Longrightarrow> \<not> closeClicked inp \<Longrightarrow> shouldClose (fst (tick pf inp a)) = shouldClose a"
  by (simp add: tick_events(2) draw_state pollEvents_def)

lemma run_loop_open:
  "\<not> shouldClose a \<Longrightarrow> \<forall>inp \<in> set inps. keyEvents inp = [] \<and> \<not> closeClicked inp \<Longrightarrow>
     length (snd (run_loop pf a inps)) = length inps"
proof (induction inps arbitrary: a)
  case Nil
  then show ?case by simp
next
  case (Cons inp inps)
  obtain a1 evs where t: "tick pf inp a = (a1, evs)" by (cases "tick pf inp a")
  obtain a2 rest where r: "run_loop pf a1 inps = (a2, rest)" by (cases "run_loop pf a1 inps")
  from Cons.prems have k: "keyEvents inp = []" "\<not> closeClicked inp" by simp_all
  from tick_shouldClose[OF k, of pf a] t Cons.prems(1) have o: "\<not> shouldClose a1" by simp
  from Cons.prems(2) have "\<forall>inp \<in> set inps. keyEvents inp = [] \<and> \<not> closeClicked inp" by simp
  from Cons.IH[OF o this] r have "length rest = length inps" by simp
  with Cons.prems(1) t r show ?case by simp
qed

lemma nonneg_sint:
  "0 \<le> sint (w :: 32 word) \<Longrightarrow> uint w = sint w \<and> uint w < 2 ^ 31"
proof -
  assume a: "0 \<le> sint w"
  have b: "sint w < 2 ^ 31" using sint_lt[of w] by simp
  have "take_bit 32 (sint w) = sint w"
    using a b by (simp add: take_bit_int_eq_self)
  then have "uint w = sint w" using uint_sint[of w] by simp
  with b show ?thesis by simp
qed

lemma eyeSetup_fields:
  "Viewport (sceneLayer (eyeSetup proj fts eye a)) =
     (Viewport (sceneLayer a))(eye := (Viewport (sceneLayer a) eye)
        \<lparr>Size := fts eye, Pos := Vector2i (uvec2_x (renderTargetSize a)) 0\<rparr>)"
  "renderTargetSize (eyeSetup proj fts eye a) =
     UVec2 (uvec2_x (renderTargetSize a) + size_w (fts eye)) (max (uvec2_y (renderTargetSize a)) (size_h (fts eye)))"
  "eyeProjections (eyeSetup proj fts eye a) = (eyeProjections a)(eye := proj eye)"
  by (simp_all add: eyeSetup_def Let_def)

lemma word_max_0: "max (0 :: 32 word) w = w"
  by (simp add: max_def)

lemma ctor_layout:
  "Viewport (sceneLayer (RiftApp_ctor proj0 proj fts)) 0 = \<lparr>Pos = Vector2i 0 0, Size = fts 0\<rparr>"
  "Viewport (sceneLayer (RiftApp_ctor proj0 proj fts)) 1 =
     \<lparr>Pos = Vector2i (size_w (fts 0)) 0, Size = fts 1\<rparr>"
  "renderTargetSize (RiftApp_ctor proj0 proj fts) =
     UVec2 (size_w (fts 0) + size_w (fts 1)) (max (size_h (fts 0)) (size_h (fts 1)))"
  "eyeProjections (RiftApp_ctor proj0 proj fts) 0 = proj 0"
  "eyeProjections (RiftApp_ctor proj0 proj fts) 1 = proj 1"
  by (simp_all add: RiftApp_ctor_def for_each_eye_unroll eyeSetup_fields RiftApp_members_def
      ovrEye_Left_def ovrEye_Right_def word_max_0)

lemmas ctor_layout_Suc = ctor_layout[unfolded One_nat_def]

lemma uint_sum:
  "0 \<le> sint (a :: 32 word) \<Longrightarrow> 0 \<le> sint (b :: 32 word) \<Longrightarrow> uint (a + b) = sint a + sint b"
proof -
  assume a: "0 \<le> sint a" and b: "0 \<le> sint b"
  from nonneg_sint[OF a] nonneg_sint[OF b]
  have s: "uint a = sint a" "uint b = sint b" "uint a + uint b < 2 ^ 32" by simp_all
  from s(3) have "uint (a + b) = uint a + uint b"
    using uint_add_lem[of a b] by simp
  with s show ?thesis by simp
qed

lemma uint_max:
  "0 \<le> sint (a :: 32 word) \<Longrightarrow> 0 \<le> sint (b :: 32 word) \<Longrightarrow> uint (max a b) = max (sint a) (sint b)"
proof -
  assume a: "0 \<le> sint a" and b: "0 \<le> sint b"
  from nonneg_sint[OF a] nonneg_sint[OF b]
  have s: "uint a = sint a" "uint b = sint b" by simp_all
  have "uint (max a b) = max (uint a) (uint b)"
    by (simp add: max_def word_le_def)
  with s show ?thesis by simp
qed

lemma extend_fields:
  "sceneLayer (RiftApp.extend r (ExampleApp.fields sc)) = sceneLayer r"
  "eyeProjections (RiftApp.extend r (ExampleApp.fields sc)) = eyeProjections r"
  "shouldClose (RiftApp.extend r (ExampleApp.fields sc)) = shouldClose r"
  "mirrorSize (RiftApp.extend r (ExampleApp.fields sc)) = mirrorSize r"
  "frame (RiftApp.extend r (ExampleApp.fields sc)) = frame r"
  by (simp_all add: RiftApp.extend_def ExampleApp.fields_def RiftApp.defs)

lemma ctor_open: "\<not> shouldClose (RiftApp_ctor proj0 proj fts)"
  by (simp add: RiftApp_ctor_def for_each_eye_unroll eyeSetup_def RiftApp_members_def Let_def)

lemma tick_submit_independent: "tick pf (inp\<lparr>submitResult := r\<rparr>) a = tick pf inp a"
proof -
  have d: "drawEye pf (inp\<lparr>submitResult := r\<rparr>) = drawEye pf inp"
    by (rule ext)+ (simp add: drawEye_def)
  show ?thesis
    by (simp add: tick_def pollEvents_def draw_def d)
qed

lemma run_loop_submit_independent:
  "run_loop pf a (map (\<lambda>inp. inp\<lparr>submitResult := g inp\<rparr>) inps) = run_loop pf a inps"
  by (induction inps arbitrary: a) (simp_all add: tick_submit_independent)

lemma tick_tail:
  "\<exists>pre. snd (tick pf inp a) =
     pre @ [CommitTextureSwapChain,
            SubmitFrame (frame a + 1)
              ((sceneLayer a)\<lparr>RenderPose := (RenderPose (sceneLayer a))(0 := eyePoses inp 0, 1 := eyePoses inp 1)\<rparr>),
            MirrorBlit (mirrorSize a), SwapBuffers]"
  by (simp add: tick_events draw_events pollEvents_fields)

text \<open>
  Claim C1. In every frame the pose recorded in the submitted layer for an eye is the
  pose behind that eye's view matrix: the scene's render is called with
  \<open>glm::inverse(toGlm(eyePoses[Left]))\<close> and then with
  \<open>glm::inverse(toGlm(eyePoses[Right]))\<close>, and the one layer handed to
  \<open>ovr_SubmitFrame\<close> holds \<open>eyePoses[Left]\<close> as \<open>RenderPose[Left]\<close> and
  \<open>eyePoses[Right]\<close> as \<open>RenderPose[Right]\<close>. This holds for one pass of the loop
  and for each frame of a run, with that frame's poses.
\<close>

theorem pose_roundtrip:
  "map snd (sceneRenders (snd (tick pf inp a))) =
     [glm_inverse pf (toGlm_pose (eyePoses inp ovrEye_Left)),
      glm_inverse pf (toGlm_pose (eyePoses inp ovrEye_Right))] \<and>
   map (\<lambda>l. (RenderPose l ovrEye_Left, RenderPose l ovrEye_Right)) (submittedLayers (snd (tick pf inp a))) =
     [(eyePoses inp ovrEye_Left, eyePoses inp ovrEye_Right)] \<and>
   RenderPose (sceneLayer (fst (tick pf inp a))) ovrEye_Left = eyePoses inp ovrEye_Left \<and>
   RenderPose (sceneLayer (fst (tick pf inp a))) ovrEye_Right = eyePoses inp ovrEye_Right \<and>
   (\<forall>i < length (snd (run_loop pf a inps)).
      map snd (sceneRenders (snd (run_loop pf a inps) ! i)) =
        [glm_inverse pf (toGlm_pose (eyePoses (inps ! i) ovrEye_Left)),
         glm_inverse pf (toGlm_pose (eyePoses (inps ! i) ovrEye_Right))] \<and>
      map (\<lambda>l. (RenderPose l ovrEye_Left, RenderPose l ovrEye_Right))
          (submittedLayers (snd (run_loop pf a inps) ! i)) =
        [(eyePoses (inps ! i) ovrEye_Left, eyePoses (inps ! i) ovrEye_Right)])"
proof -
  have a: "map snd (sceneRenders (snd (tick pf inp a))) =
     [glm_inverse pf (toGlm_pose (eyePoses inp ovrEye_Left)),
      glm_inverse pf (toGlm_pose (eyePoses inp ovrEye_Right))]"
    by (simp add: tick_observe ovrEye_Left_def ovrEye_Right_def)
  have b: "map (\<lambda>l. (RenderPose l ovrEye_Left, RenderPose l ovrEye_Right)) (submittedLayers (snd (tick pf inp a))) =
     [(eyePoses inp ovrEye_Left, eyePoses inp ovrEye_Right)]"
    by (simp add: tick_observe ovrEye_Left_def ovrEye_Right_def)
  have c: "RenderPose (sceneLayer (fst (tick pf inp a))) ovrEye_Left = eyePoses inp ovrEye_Left"
    "RenderPose (sceneLayer (fst (tick pf inp a))) ovrEye_Right = eyePoses inp ovrEye_Right"
    by (simp_all add: tick_events draw_state pollEvents_fields ovrEye_Left_def ovrEye_Right_def)
  have d: "\<forall>i < length (snd (run_loop pf a inps)).
      map snd (sceneRenders (snd (run_loop pf a inps) ! i)) =
        [glm_inverse pf (toGlm_pose (eyePoses (inps ! i) ovrEye_Left)),
         glm_inverse pf (toGlm_pose (eyePoses (inps ! i) ovrEye_Right))] \<and>
      map (\<lambda>l. (RenderPose l ovrEye_Left, RenderPose l ovrEye_Right))
          (submittedLayers (snd (run_loop pf a inps) ! i)) =
        [(eyePoses (inps ! i) ovrEye_Left, eyePoses (inps ! i) ovrEye_Right)]"
  proof (intro allI impI)
    fix i assume i: "i < length (snd (run_loop pf a inps))"
    obtain a' frames where r: "run_loop pf a inps = (a', frames)" by (cases "run_loop pf a inps")
    from i r have "i < length frames" by simp
    from run_loop_frames[OF r this] r
    show "map snd (sceneRenders (snd (run_loop pf a inps) ! i)) =
        [glm_inverse pf (toGlm_pose (eyePoses (inps ! i) ovrEye_Left)),
         glm_inverse pf (toGlm_pose (eyePoses (inps ! i) ovrEye_Right))] \<and>
      map (\<lambda>l. (RenderPose l ovrEye_Left, RenderPose l ovrEye_Right))
          (submittedLayers (snd (run_loop pf a inps) ! i)) =
        [(eyePoses (inps ! i) ovrEye_Left, eyePoses (inps ! i) ovrEye_Right)]"
      by (simp add: ovrEye_Left_def ovrEye_Right_def)
  qed
  from a b c d show ?thesis by blast
qed

lemma demo_views:
  "translation_inverse (toGlm_pose (demo_eye 0)) =
     Mat4 (Vec4 1 0 0 0) (Vec4 0 1 0 0) (Vec4 0 0 1 0) (Vec4 0.032 (-1.7) 0 1)"
  "translation_inverse (toGlm_pose (demo_eye 1)) =
     Mat4 (Vec4 1 0 0 0) (Vec4 0 1 0 0) (Vec4 0 0 1 0) (Vec4 (-0.032) (-1.7) 0 1)"
  by (simp_all add: translation_inverse_def toGlm_pose_def demo_eye_def glm_translate_def
      glm_mat4_cast_def mat4_mul_def mat4_mul_vec4_def mat4_identity_def vec4_add_def vec4_scale_def Let_def)

lemma demo_app_open: "\<not> shouldClose demo_app"
  by (simp add: demo_app_def extend_fields ctor_open)

lemma demo_run_length:
  "length (snd (run_loop demo_platform demo_app [demo_input, demo_failed_input])) = 2"
proof -
  have "\<forall>inp \<in> set [demo_input, demo_failed_input]. keyEvents inp = [] \<and> \<not> closeClicked inp"
    by (simp add: demo_input_def demo_failed_input_def)
  from run_loop_open[OF demo_app_open this, of demo_platform]
  show ?thesis by (simp del: run_loop.simps)
qed

theorem pose_roundtrip_witness:
  "map snd (sceneRenders (snd (tick demo_platform demo_input demo_app))) =
     [Mat4 (Vec4 1 0 0 0) (Vec4 0 1 0 0) (Vec4 0 0 1 0) (Vec4 0.032 (-1.7) 0 1),
      Mat4 (Vec4 1 0 0 0) (Vec4 0 1 0 0) (Vec4 0 0 1 0) (Vec4 (-0.032) (-1.7) 0 1)] \<and>
   map (\<lambda>l. (Position (RenderPose l ovrEye_Left), Position (RenderPose l ovrEye_Right)))
       (submittedLayers (snd (tick demo_platform demo_input demo_app))) =
     [(Vec3 (-0.032) 1.7 0, Vec3 0.032 1.7 0)] \<and>
   (1::nat) < length (snd (run_loop demo_platform demo_app [demo_input, demo_failed_input])) \<and>
   map (\<lambda>l. (Position (RenderPose l ovrEye_Left), Position (RenderPose l ovrEye_Right)))
       (submittedLayers (snd (run_loop demo_platform demo_app [demo_input, demo_failed_input]) ! 1)) =
     [(Vec3 (-0.032) 1.7 0, Vec3 0.032 1.7 0)]"
proof -
  note T = pose_roundtrip[of demo_platform demo_input demo_app "[demo_input, demo_failed_input]"]
  have g: "glm_inverse demo_platform = translation_inverse" by (simp add: demo_platform_def)
  have e: "eyePoses demo_input = demo_eye" "eyePoses demo_failed_input = demo_eye"
    by (simp_all add: demo_input_def demo_failed_input_def)
  have p: "Position (demo_eye ovrEye_Left) = Vec3 (-0.032) 1.7 0"
    "Position (demo_eye ovrEye_Right) = Vec3 0.032 1.7 0"
    by (simp_all add: demo_eye_def ovrEye_Left_def ovrEye_Right_def)
  have v: "map snd (sceneRenders (snd (tick demo_platform demo_input demo_app))) =
     [Mat4 (Vec4 1 0 0 0) (Vec4 0 1 0 0) (Vec4 0 0 1 0) (Vec4 0.032 (-1.7) 0 1),
      Mat4 (Vec4 1 0 0 0) (Vec4 0 1 0 0) (Vec4 0 0 1 0) (Vec4 (-0.032) (-1.7) 0 1)]"
    using T demo_views by (simp add: g e ovrEye_Left_def ovrEye_Right_def)
  have l: "map (\<lambda>l. (RenderPose l ovrEye_Left, RenderPose l ovrEye_Right))
       (submittedLayers (snd (tick demo_platform demo_input demo_app))) =
     [(demo_eye ovrEye_Left, demo_eye ovrEye_Right)]"
    using T by (simp add: e)
  have n: "(1::nat) < length (snd (run_loop demo_platform demo_app [demo_input, demo_failed_input]))"
    by (simp only: demo_run_length)
  with T have "map (\<lambda>l. (RenderPose l ovrEye_Left, RenderPose l ovrEye_Right))
          (submittedLayers (snd (run_loop demo_platform demo_app [demo_input, demo_failed_input]) ! 1)) =
        [(eyePoses ([demo_input, demo_failed_input] ! 1) ovrEye_Left,
          eyePoses ([demo_input, demo_failed_input] ! 1) ovrEye_Right)]"
    by blast
  then have m: "map (\<lambda>l. (RenderPose l ovrEye_Left, RenderPose l ovrEye_Right))
          (submittedLayers (snd (run_loop demo_platform demo_app [demo_input, demo_failed_input]) ! 1)) =
        [(demo_eye ovrEye_Left, demo_eye ovrEye_Right)]"
    by (simp add: e)
  have l': "map (\<lambda>l. (Position (RenderPose l ovrEye_Left), Position (RenderPose l ovrEye_Right)))
       (submittedLayers (snd (tick demo_platform demo_input demo_app))) =
     [(Vec3 (-0.032) 1.7 0, Vec3 0.032 1.7 0)]"
    using arg_cong[OF l, of "map (\<lambda>(x, y). (Position x, Position y))"] p by (simp add: comp_def)
  have m': "map (\<lambda>l. (Position (RenderPose l ovrEye_Left), Position (RenderPose l ovrEye_Right)))
       (submittedLayers (snd (run_loop demo_platform demo_app [demo_input, demo_failed_input]) ! 1)) =
     [(Vec3 (-0.032) 1.7 0, Vec3 0.032 1.7 0)]"
    using arg_cong[OF m, of "map (\<lambda>(x, y). (Position x, Position y))"] p by (simp add: comp_def)
  from v l' n m' show ?thesis by blast
qed

text \<open>
  Against claim C3 as stated: a frame whose submission is rejected writes nothing to
  \<open>std::cerr\<close> and is not dropped; the pass is the very pass of an accepted submission,
  mirror blit and buffer swap included.
\<close>

theorem submit_failure_counterexample:
  "\<not> OVR_SUCCESS (submitResult demo_failed_input) \<and>
   stderrLines (snd (tick demo_platform demo_failed_input demo_app)) = [] \<and>
   tick demo_platform demo_failed_input demo_app = tick demo_platform demo_input demo_app \<and>
   MirrorBlit (mirrorSize demo_app) \<in> set (snd (tick demo_platform demo_failed_input demo_app)) \<and>
   SwapBuffers \<in> set (snd (tick demo_platform demo_failed_input demo_app))"
proof -
  have a: "\<not> OVR_SUCCESS (submitResult demo_failed_input)"
    by (simp add: OVR_SUCCESS_def demo_failed_input_def)
  have b: "stderrLines (snd (tick demo_platform demo_failed_input demo_app)) = []"
    by (rule tick_observe(4))
  have c: "tick demo_platform demo_failed_input demo_app = tick demo_platform demo_input demo_app"
    unfolding demo_failed_input_def by (rule tick_submit_independent)
  from tick_tail[of demo_platform demo_failed_input demo_app]
  have d: "MirrorBlit (mirrorSize demo_app) \<in> set (snd (tick demo_platform demo_failed_input demo_app))"
    "SwapBuffers \<in> set (snd (tick demo_platform demo_failed_input demo_app))"
    by auto
  from a b c d show ?thesis by blast
qed

text \<open>
  Claim C3, as amended. The result of the per-frame submission is ignored: a pass of the
  loop, and a whole run, are the same whatever \<open>ovr_SubmitFrame\<close> returns. Nothing is
  written to \<open>std::cerr\<close>, the frame is submitted exactly once (never again in the same
  frame), the mirror blit and the buffer swap follow the submission, and the loop goes on
  to the next pass.
\<close>

theorem submit_result_ignored:
  "tick pf (inp\<lparr>submitResult := r\<rparr>) a = tick pf inp a \<and>
   run_loop pf a (map (\<lambda>inp. inp\<lparr>submitResult := g inp\<rparr>) inps) = run_loop pf a inps \<and>
   stderrLines (snd (tick pf inp a)) = [] \<and>
   length (submittedLayers (snd (tick pf inp a))) = 1 \<and>
   (\<exists>pre. snd (tick pf inp a) =
      pre @ [CommitTextureSwapChain,
             SubmitFrame (frame a + 1)
               ((sceneLayer a)\<lparr>RenderPose := (RenderPose (sceneLayer a))
                    (0 := eyePoses inp 0, 1 := eyePoses inp 1)\<rparr>),
             MirrorBlit (mirrorSize a), SwapBuffers]) \<and>
   (\<not> shouldClose a \<longrightarrow>
      snd (run_loop pf a (inp # inps)) =
        snd (tick pf inp a) # snd (run_loop pf (fst (tick pf inp a)) inps))"
proof -
  have f: "\<not> shouldClose a \<longrightarrow>
      snd (run_loop pf a (inp # inps)) =
        snd (tick pf inp a) # snd (run_loop pf (fst (tick pf inp a)) inps)"
    by (cases "tick pf inp a"; cases "run_loop pf (fst (tick pf inp a)) inps") simp
  from tick_submit_independent[where pf=pf and inp=inp and r=r and a=a]
    run_loop_submit_independent[where pf=pf and a=a and g=g and inps=inps]
    tick_observe(4)[of pf inp a] tick_observe(2)[of pf inp a] tick_tail[of pf inp a] f
  show ?thesis by simp
qed

theorem submit_result_ignored_witness:
  "\<not> OVR_SUCCESS (-6002) \<and> \<not> shouldClose demo_app \<and>
   tick demo_platform (demo_input\<lparr>submitResult := -6002\<rparr>) demo_app = tick demo_platform demo_input demo_app \<and>
   stderrLines (snd (tick demo_platform demo_input demo_app)) = [] \<and>
   length (submittedLayers (snd (tick demo_platform demo_input demo_app))) = 1 \<and>
   snd (run_loop demo_platform demo_app [demo_input]) = [snd (tick demo_platform demo_input demo_app)]"
  using submit_result_ignored[where pf=demo_platform and inp=demo_input and r="-6002" and a=demo_app
      and g="\<lambda>_. 0" and inps="[]"] demo_app_open
  by (simp add: OVR_SUCCESS_def del: run_loop.simps) (simp add: split_def)

text \<open>
  Claim C2. With eye sizes that are not negative, the constructor gives each eye its own
  viewport of that eye's size, the left one at the origin and the right one beside it; the
  render target is as wide as the two eye widths together and as high as the higher eye.
  The two viewports share no pixel, both lie in the render target, and taken together they
  extend from 0 to the target's width and from 0 to its height (they cover it pixel for
  pixel when the two heights are equal). In every frame of a run, however many there are,
  exactly two eyes are rendered, left then right, each after its own viewport is set.
\<close>

theorem stereo_viewports:
  assumes wl: "0 \<le> sint (size_w (fts ovrEye_Left))" and hl: "0 \<le> sint (size_h (fts ovrEye_Left))"
    and wr: "0 \<le> sint (size_w (fts ovrEye_Right))" and hr: "0 \<le> sint (size_h (fts ovrEye_Right))"
  shows
    "(let r = RiftApp_ctor proj0 proj fts;
          vpL = Viewport (sceneLayer r) ovrEye_Left;
          vpR = Viewport (sceneLayer r) ovrEye_Right;
          rts = renderTargetSize r;
          frames = snd (run_loop pf (RiftApp.extend r (ExampleApp.fields sc)) inps)
      in Size vpL = fts ovrEye_Left \<and> Size vpR = fts ovrEye_Right \<and>
         uint (uvec2_x rts) = sint (size_w (fts ovrEye_Left)) + sint (size_w (fts ovrEye_Right)) \<and>
         uint (uvec2_y rts) = max (sint (size_h (fts ovrEye_Left))) (sint (size_h (fts ovrEye_Right))) \<and>
         (\<forall>px py. \<not> (inViewport vpL px py \<and> inViewport vpR px py)) \<and>
         (\<forall>px py. inViewport vpL px py \<or> inViewport vpR px py \<longrightarrow> inRenderTarget rts px py) \<and>
         unionLeft vpL vpR = 0 \<and> unionBottom vpL vpR = 0 \<and>
         unionRight vpL vpR = uint (uvec2_x rts) \<and> unionTop vpL vpR = uint (uvec2_y rts) \<and>
         (sint (size_h (fts ovrEye_Left)) = sint (size_h (fts ovrEye_Right)) \<longrightarrow>
            (\<forall>px py. (inViewport vpL px py \<or> inViewport vpR px py) = inRenderTarget rts px py)) \<and>
         (\<forall>i < length frames.
            viewportCalls (frames ! i) = [viewportArgs vpL, viewportArgs vpR] \<and>
            map fst (sceneRenders (frames ! i)) = [proj ovrEye_Left, proj ovrEye_Right]))"
proof -
  let ?r = "RiftApp_ctor proj0 proj fts"
  let ?vpL = "Viewport (sceneLayer ?r) ovrEye_Left"
  let ?vpR = "Viewport (sceneLayer ?r) ovrEye_Right"
  let ?rts = "renderTargetSize ?r"
  let ?a = "RiftApp.extend ?r (ExampleApp.fields sc)"
  let ?frames = "snd (run_loop pf ?a inps)"
  from wl hl wr hr have n: "0 \<le> sint (size_w (fts 0))" "0 \<le> sint (size_h (fts 0))"
    "0 \<le> sint (size_w (fts 1))" "0 \<le> sint (size_h (fts 1))"
    by (simp_all add: ovrEye_Left_def ovrEye_Right_def)
  have vl: "?vpL = \<lparr>Pos = Vector2i 0 0, Size = fts 0\<rparr>"
    and vr: "?vpR = \<lparr>Pos = Vector2i (size_w (fts 0)) 0, Size = fts 1\<rparr>"
    by (simp_all add: ctor_layout_Suc ovrEye_Left_def ovrEye_Right_def)
  have W: "uint (uvec2_x ?rts) = sint (size_w (fts 0)) + sint (size_w (fts 1))"
    using uint_sum[OF n(1) n(3)] by (simp add: ctor_layout)
  have H: "uint (uvec2_y ?rts) = max (sint (size_h (fts 0))) (sint (size_h (fts 1)))"
    using uint_max[OF n(2) n(4)] by (simp add: ctor_layout)
  have s: "Size ?vpL = fts ovrEye_Left" "Size ?vpR = fts ovrEye_Right"
    using vl vr by (simp_all add: ovrEye_Left_def ovrEye_Right_def)
  have inL: "\<And>px py. inViewport ?vpL px py =
      (0 \<le> px \<and> px < sint (size_w (fts 0)) \<and> 0 \<le> py \<and> py < sint (size_h (fts 0)))"
    by (simp add: vl inViewport_def)
  have inR: "\<And>px py. inViewport ?vpR px py =
      (sint (size_w (fts 0)) \<le> px \<and> px < sint (size_w (fts 0)) + sint (size_w (fts 1)) \<and>
       0 \<le> py \<and> py < sint (size_h (fts 1)))"
    by (simp add: vr inViewport_def)
  have inT: "\<And>px py. inRenderTarget ?rts px py =
      (0 \<le> px \<and> px < sint (size_w (fts 0)) + sint (size_w (fts 1)) \<and>
       0 \<le> py \<and> py < max (sint (size_h (fts 0))) (sint (size_h (fts 1))))"
    by (simp add: inRenderTarget_def W H)
  have disj: "\<forall>px py. \<not> (inViewport ?vpL px py \<and> inViewport ?vpR px py)"
    by (simp add: inL inR)
  have sub: "\<forall>px py. inViewport ?vpL px py \<or> inViewport ?vpR px py \<longrightarrow> inRenderTarget ?rts px py"
    using n by (auto simp: inL inR inT)
  have ext: "unionLeft ?vpL ?vpR = 0" "unionBottom ?vpL ?vpR = 0"
    "unionRight ?vpL ?vpR = uint (uvec2_x ?rts)" "unionTop ?vpL ?vpR = uint (uvec2_y ?rts)"
    using n by (simp_all add: unionLeft_def unionBottom_def unionRight_def unionTop_def vl vr W H)
  have eq: "sint (size_h (fts 0)) = sint (size_h (fts 1)) \<longrightarrow>
            (\<forall>px py. (inViewport ?vpL px py \<or> inViewport ?vpR px py) = inRenderTarget ?rts px py)"
    using n by (auto simp: inL inR inT)
  have fr: "\<forall>i < length ?frames.
            viewportCalls (?frames ! i) = [viewportArgs ?vpL, viewportArgs ?vpR] \<and>
            map fst (sceneRenders (?frames ! i)) = [proj ovrEye_Left, proj ovrEye_Right]"
  proof (intro allI impI)
    fix i assume i: "i < length ?frames"
    obtain a' frames where r: "run_loop pf ?a inps = (a', frames)" by (cases "run_loop pf ?a inps")
    from i r have "i < length frames" by simp
    from run_loop_frames[OF r this] r
    show "viewportCalls (?frames ! i) = [viewportArgs ?vpL, viewportArgs ?vpR] \<and>
            map fst (sceneRenders (?frames ! i)) = [proj ovrEye_Left, proj ovrEye_Right]"
      by (simp add: extend_fields ctor_layout_Suc ovrEye_Left_def ovrEye_Right_def)
  qed
  from s W H disj sub ext eq fr show ?thesis
    unfolding Let_def by (simp only: ovrEye_Left_def ovrEye_Right_def) blast
qed

theorem stereo_viewports_witness:
  "0 \<le> sint (size_w (demo_sizes ovrEye_Left)) \<and> 0 \<le> sint (size_h (demo_sizes ovrEye_Left)) \<and>
   0 \<le> sint (size_w (demo_sizes ovrEye_Right)) \<and> 0 \<le> sint (size_h (demo_sizes ovrEye_Right)) \<and>
   uint (uvec2_x (renderTargetSize demo_app)) = 2688 \<and> uint (uvec2_y (renderTargetSize demo_app)) = 1600 \<and>
   (1::nat) < length (snd (run_loop demo_platform demo_app [demo_input, demo_failed_input])) \<and>
   viewportCalls (snd (run_loop demo_platform demo_app [demo_input, demo_failed_input]) ! 1) =
     [(0, 0, 1344, 1600), (1344, 0, 1344, 1600)] \<and>
   sint (size_h (demo_sizes ovrEye_Left)) = sint (size_h (demo_sizes ovrEye_Right)) \<and>
   inRenderTarget (renderTargetSize demo_app) 2000 100 \<and>
   inViewport (Viewport (sceneLayer demo_app) ovrEye_Right) 2000 100 \<and>
   \<not> inViewport (Viewport (sceneLayer demo_app) ovrEye_Left) 2000 100"
proof -
  have n: "0 \<le> sint (size_w (demo_sizes ovrEye_Left))" "0 \<le> sint (size_h (demo_sizes ovrEye_Left))"
    "0 \<le> sint (size_w (demo_sizes ovrEye_Right))" "0 \<le> sint (size_h (demo_sizes ovrEye_Right))"
    by (simp_all add: demo_sizes_def)
  note T = stereo_viewports[OF n, of "\<lambda>_. mat4_identity" "\<lambda>_. mat4_identity" demo_platform demo_scene
      "[demo_input, demo_failed_input]", unfolded Let_def, folded demo_app_def]
  have l: "(1::nat) < length (snd (run_loop demo_platform demo_app [demo_input, demo_failed_input]))"
    by (simp only: demo_run_length)
  have r: "renderTargetSize demo_app =
      renderTargetSize (RiftApp_ctor (\<lambda>_. mat4_identity) (\<lambda>_. mat4_identity) demo_sizes)"
    by (simp add: demo_app_def RiftApp.extend_def ExampleApp.fields_def RiftApp.defs)
  have v: "viewportArgs (Viewport (sceneLayer (RiftApp_ctor (\<lambda>_. mat4_identity) (\<lambda>_. mat4_identity) demo_sizes)) ovrEye_Left) =
      (0, 0, 1344, 1600)"
    "viewportArgs (Viewport (sceneLayer (RiftApp_ctor (\<lambda>_. mat4_identity) (\<lambda>_. mat4_identity) demo_sizes)) ovrEye_Right) =
      (1344, 0, 1344, 1600)"
    by (simp_all add: ctor_layout_Suc viewportArgs_def demo_sizes_def ovrEye_Left_def ovrEye_Right_def)
  from T l have c: "viewportCalls (snd (run_loop demo_platform demo_app [demo_input, demo_failed_input]) ! 1) =
     [viewportArgs (Viewport (sceneLayer (RiftApp_ctor (\<lambda>_. mat4_identity) (\<lambda>_. mat4_identity) demo_sizes)) ovrEye_Left),
      viewportArgs (Viewport (sceneLayer (RiftApp_ctor (\<lambda>_. mat4_identity) (\<lambda>_. mat4_identity) demo_sizes)) ovrEye_Right)]"
    by blast
  from T have d: "uint (uvec2_x (renderTargetSize (RiftApp_ctor (\<lambda>_. mat4_identity) (\<lambda>_. mat4_identity) demo_sizes))) =
      sint (size_w (demo_sizes ovrEye_Left)) + sint (size_w (demo_sizes ovrEye_Right))"
    "uint (uvec2_y (renderTargetSize (RiftApp_ctor (\<lambda>_. mat4_identity) (\<lambda>_. mat4_identity) demo_sizes))) =
      max (sint (size_h (demo_sizes ovrEye_Left))) (sint (size_h (demo_sizes ovrEye_Right)))"
    by blast+
  have e: "uint (uvec2_x (renderTargetSize demo_app)) = 2688" "uint (uvec2_y (renderTargetSize demo_app)) = 1600"
    using d by (simp_all add: r demo_sizes_def)
  have h: "sint (size_h (demo_sizes ovrEye_Left)) = sint (size_h (demo_sizes ovrEye_Right))"
    by (simp add: demo_sizes_def)
  have sl: "sceneLayer demo_app =
      sceneLayer (RiftApp_ctor (\<lambda>_. mat4_identity) (\<lambda>_. mat4_identity) demo_sizes)"
    by (simp add: demo_app_def extend_fields)
  have t: "inRenderTarget (renderTargetSize demo_app) 2000 100"
    using e by (simp add: inRenderTarget_def)
  from T h have "(inViewport (Viewport (sceneLayer (RiftApp_ctor (\<lambda>_. mat4_identity) (\<lambda>_. mat4_identity) demo_sizes)) ovrEye_Left) 2000 100 \<or>
       inViewport (Viewport (sceneLayer (RiftApp_ctor (\<lambda>_. mat4_identity) (\<lambda>_. mat4_identity) demo_sizes)) ovrEye_Right) 2000 100) =
      inRenderTarget (renderTargetSize (RiftApp_ctor (\<lambda>_. mat4_identity) (\<lambda>_. mat4_identity) demo_sizes)) 2000 100"
    by blast
  with t have u: "inViewport (Viewport (sceneLayer demo_app) ovrEye_Left) 2000 100 \<or>
       inViewport (Viewport (sceneLayer demo_app) ovrEye_Right) 2000 100"
    by (simp add: sl r)
  have nl: "\<not> inViewport (Viewport (sceneLayer demo_app) ovrEye_Left) 2000 100"
    by (simp add: sl ctor_layout_Suc inViewport_def demo_sizes_def ovrEye_Left_def)
  from u nl have ir: "inViewport (Viewport (sceneLayer demo_app) ovrEye_Right) 2000 100" by blast
  from n l e c v h t ir nl show ?thesis by (simp only:) simp
qed

text \<open>With eye heights 1 and 3 the pixel \<open>(0, 2)\<close> of the render target is in neither
  viewport.\<close>

lemma unequal_heights_gap:
  "inRenderTarget (renderTargetSize (RiftApp_ctor p0 p (\<lambda>eye. if eye = 0 then Sizei 2 1 else Sizei 2 3))) 0 2 \<and>
   \<not> inViewport (Viewport (sceneLayer (RiftApp_ctor p0 p (\<lambda>eye. if eye = 0 then Sizei 2 1 else Sizei 2 3))) 0) 0 2 \<and>
   \<not> inViewport (Viewport (sceneLayer (RiftApp_ctor p0 p (\<lambda>eye. if eye = 0 then Sizei 2 1 else Sizei 2 3))) 1) 0 2"
  by (simp add: ctor_layout_Suc inRenderTarget_def inViewport_def max_def)

text \<open>Start-up either fails with the message of the first check that failed, which
  \<open>WinMain\<close> writes to \<open>std::cerr\<close> before it returns \<open>-1\<close>, or gives the application
  the loop runs on.\<close>

lemma startup_logged:
  "startup se = Inl (runtime_error msg) \<Longrightarrow> WinMain pf se inps = (-1, [[Stderr msg]])"
  by (simp add: WinMain_def)

lemma startup_app:
  "startup se = Inr a \<Longrightarrow>
     a = RiftApp.extend (RiftApp_ctor (projections0 se) (projections se) (fovTextureSizes se))
           (ExampleApp.fields
              (ColorCubeScene_ctor (initVelocity se) (initRotation se) (clockAtStart se)
                 (vibTimer0 se) (handPoses0 se) (inputstate0 se) (Vec4 0 0 0.4 0))) \<and>
     WinMain pf se inps = (0, snd (run_loop pf a inps))"
  by (auto simp: startup_def WinMain_def Let_def split: if_splits)

end
